theory Spec2Isabelle
  imports Complex_Main "HOL-Library.AList"
begin

section \<open>Array cells and elementwise arithmetic\<close>

text \<open>
  The notebooks compute on floating-point arrays held by the array library. A cell is
  modelled as a real number or the missing value \<open>NaN\<close>: rounding is idealised away,
  the missing value is kept, because reductions over an empty axis and masked divisions
  produce it instead of raising.
\<close>

datatype cell = NaN | Val real

datatype error =
    ZeroDivisionError
  | KeyError string
  | IndexError
  | ValueError
  | TypeError
  | AttributeError

text \<open>Elementwise subtraction and multiplication: a missing operand gives a missing result.\<close>

fun csub :: "cell \<Rightarrow> cell \<Rightarrow> cell" where
  "csub (Val a) (Val b) = Val (a - b)"
| "csub _ _ = NaN"

fun cmul :: "cell \<Rightarrow> cell \<Rightarrow> cell" where
  "cmul (Val a) (Val b) = Val (a * b)"
| "cmul _ _ = NaN"

text \<open>Division by a non-zero constant, as in \<^verbatim>\<open>x/10**15\<close>.\<close>

fun cdiv_const :: "cell \<Rightarrow> real \<Rightarrow> cell" where
  "cdiv_const (Val a) k = Val (a / k)"
| "cdiv_const NaN k = NaN"

text \<open>The values of the cells that are not missing (the library's \<^verbatim>\<open>skipna\<close> view).\<close>

fun valid :: "cell list \<Rightarrow> real list" where
  "valid [] = []"
| "valid (NaN # cs) = valid cs"
| "valid (Val v # cs) = v # valid cs"

text \<open>\<^verbatim>\<open>fillna(0.0)\<close>: a missing cell counts as zero.\<close>

fun fillna0 :: "cell \<Rightarrow> real" where
  "fillna0 NaN = 0"
| "fillna0 (Val v) = v"

text \<open>
  \<^verbatim>\<open>.mean()\<close> of a float array skips missing cells; over no valid cell the result is
  \<open>NaN\<close> (the library divides a zero sum by a zero count).
\<close>

definition nanmean :: "cell list \<Rightarrow> cell" where
  "nanmean cs =
     (let vs = valid cs
      in if vs = [] then NaN else Val (sum_list vs / real (length vs)))"

text \<open>
  \<^verbatim>\<open>np.cumsum\<close> of a labelled array dispatches to the array's own cumulative sum, which
  runs along the axis in storage order and counts a missing cell as zero.
\<close>

fun cumsum_from :: "real \<Rightarrow> real list \<Rightarrow> real list" where
  "cumsum_from acc [] = []"
| "cumsum_from acc (x # xs) = (acc + x) # cumsum_from (acc + x) xs"

definition nancumsum :: "cell list \<Rightarrow> cell list" where
  "nancumsum cs = map Val (cumsum_from 0 (map fillna0 cs))"

section \<open>Poleward heat transport (radiation notebook)\<close>

text \<open>
  A zonal-mean field: the latitude axis (degrees) and one cell per latitude, in the
  storage order of the axis.
\<close>

record zonal =
  zlat :: "real list"
  zval :: "cell list"

definition Earth :: real where
  "Earth = 6370000"

definition deg2rad :: "real \<Rightarrow> real" where
  "deg2rad d = d * (pi / 180)"

text \<open>
  \<^verbatim>\<open>dlat = math.pi*Earth/len(zonal_toa.lat)\<close>: a Python float divided by the integer
  length; with no latitude Python raises \<^verbatim>\<open>ZeroDivisionError\<close>.
\<close>

definition dlat :: "zonal \<Rightarrow> error + real" where
  "dlat z =
     (if length (zlat z) = 0 then Inl ZeroDivisionError
      else Inr (pi * Earth / real (length (zlat z))))"

text \<open>\<^verbatim>\<open>dlon = 2*math.pi*Earth*np.cos(np.deg2rad(zonal_toa.lat))\<close>, one value per latitude.\<close>

definition dlon :: "zonal \<Rightarrow> real list" where
  "dlon z = map (\<lambda>l. 2 * pi * Earth * cos (deg2rad l)) (zlat z)"

text \<open>
  \<^verbatim>\<open>global_transport = (np.cumsum(zonal_toa-zonal_toa.mean()))*dlon*dlat/10**15\<close>.
  The cell that defines \<open>dlat\<close> and \<open>dlon\<close> runs first, so its error comes first.
  All operands carry the latitude axis of \<open>zonal_toa\<close>, so the products are positional.
\<close>

definition global_transport :: "zonal \<Rightarrow> error + zonal" where
  "global_transport z =
     (case dlat z of
        Inl e \<Rightarrow> Inl e
      | Inr d \<Rightarrow>
          Inr (z\<lparr>zval :=
            map (\<lambda>(c, dl). cdiv_const (cmul (cmul c (Val dl)) (Val d)) (10 ^ 15))
              (zip (nancumsum (map (\<lambda>c. csub c (nanmean (zval z))) (zval z))) (dlon z))\<rparr>))"

text \<open>
  The specification's wording, as a second definition: at each latitude, the sum of the
  mean-removed field over all latitudes at or south of it, times the area element.
\<close>

definition transport_south_to_north :: "real list \<Rightarrow> real list \<Rightarrow> nat \<Rightarrow> real" where
  "transport_south_to_north lats xs i =
     (\<Sum>j \<leftarrow> [j \<leftarrow> [0..<length xs]. lats ! j \<le> lats ! i].
         (xs ! j - sum_list xs / real (length xs)))
     * (2 * pi * 6370000 * cos (lats ! i * pi / 180))
     * (pi * 6370000 / real (length xs)) / 10 ^ 15"

section \<open>Gridded fields and datasets\<close>

text \<open>
  A grid is a list of latitude rows, each a list of cells along the longitude axis. A
  time label is a calendar date (year, month, day); selecting by date strings compares
  the dates of the labels.
\<close>

type_synonym grid = "cell list list"

type_synonym date = "int \<times> int \<times> int"

fun date_le :: "date \<Rightarrow> date \<Rightarrow> bool" where
  "date_le (y1, m1, d1) (y2, m2, d2) =
     (y1 < y2 \<or> (y1 = y2 \<and> (m1 < m2 \<or> (m1 = m2 \<and> d1 \<le> d2))))"

text \<open>A field on (time, lat, lon), a field on (lat, lon), and a time series.\<close>

record field3 =
  gname :: "string option"
  gtime :: "date list"
  glat :: "real list"
  glon :: "real list"
  gval :: "grid list"

record field2 =
  fname :: "string option"
  flat :: "real list"
  flon :: "real list"
  fval :: grid

record series =
  stime :: "date list"
  sval :: "cell list"

text \<open>
  A dataset: one set of coordinate axes shared by all variables, and the variables by
  name. The radiation files are opened with
  \<^verbatim>\<open>xr.open_mfdataset(..., join="override", compat="override")\<close>, which gives the variables
  of all files the axes of the first.
\<close>

record dataset =
  ds_time :: "date list"
  ds_lat :: "real list"
  ds_lon :: "real list"
  ds_vars :: "string \<rightharpoonup> grid list"

definition bind_err :: "error + 'a \<Rightarrow> ('a \<Rightarrow> error + 'b) \<Rightarrow> error + 'b" where
  "bind_err m k = (case m of Inl e \<Rightarrow> Inl e | Inr x \<Rightarrow> k x)"

text \<open>\<^verbatim>\<open>dataset['name']\<close>: the variable on the dataset's axes, or \<^verbatim>\<open>KeyError\<close>.\<close>

definition getvar :: "dataset \<Rightarrow> string \<Rightarrow> error + field3" where
  "getvar ds n =
     (case ds_vars ds n of
        None \<Rightarrow> Inl (KeyError n)
      | Some v \<Rightarrow>
          Inr \<lparr>gname = Some n, gtime = ds_time ds, glat = ds_lat ds, glon = ds_lon ds,
               gval = v\<rparr>)"

text \<open>
  The library aligns the operands of a binary operation on the labels of every shared
  axis before it computes (the default join is the inner join). An axis that is equal in
  both operands is taken as it is. Otherwise the labels present in both are kept, in the
  order of the left operand, each paired with the position of the same label in the right
  operand; this re-indexing needs unique labels, and the library raises \<^verbatim>\<open>ValueError\<close>
  when an axis that differs has a repeated label. The result of the alignment is the list
  of paired positions (left, right).
\<close>

fun index_of :: "'a list \<Rightarrow> 'a \<Rightarrow> nat option" where
  "index_of [] x = None"
| "index_of (y # ys) x = (if x = y then Some 0 else map_option Suc (index_of ys x))"

definition join_axis :: "'a list \<Rightarrow> 'a list \<Rightarrow> error + (nat \<times> nat) list" where
  "join_axis la lb =
     (if la = lb then Inr (map (\<lambda>i. (i, i)) [0..<length la])
      else if distinct la \<and> distinct lb then
        Inr (List.map_filter (\<lambda>i. map_option (Pair i) (index_of lb (la ! i))) [0..<length la])
      else Inl ValueError)"

text \<open>
  Subtraction of two fields on (time, lat, lon), \<^verbatim>\<open>a - b\<close>: the three axes are aligned,
  and every cell of the result is the difference of the paired cells. The result keeps
  the name only when both operands have the same name.
\<close>

definition sub3 :: "field3 \<Rightarrow> field3 \<Rightarrow> error + field3" where
  "sub3 a b =
     bind_err (join_axis (gtime a) (gtime b)) (\<lambda>ts.
     bind_err (join_axis (glat a) (glat b)) (\<lambda>is.
     bind_err (join_axis (glon a) (glon b)) (\<lambda>js.
       Inr \<lparr>gname = (if gname a = gname b then gname a else None),
            gtime = map (\<lambda>(t, t'). gtime a ! t) ts,
            glat = map (\<lambda>(i, i'). glat a ! i) is,
            glon = map (\<lambda>(j, j'). glon a ! j) js,
            gval = map (\<lambda>(t, t'). map (\<lambda>(i, i'). map (\<lambda>(j, j').
                      csub (gval a ! t ! i ! j) (gval b ! t' ! i' ! j')) js) is) ts\<rparr>)))"

text \<open>
  \<^verbatim>\<open>.sel(time=slice(lo, hi))\<close>: on an increasing time axis, label-based slicing keeps the
  time steps whose date lies between the two bounds, both included. On a time axis that
  is not increasing the library raises \<^verbatim>\<open>KeyError\<close>.
\<close>

definition in_period :: "date \<Rightarrow> date \<Rightarrow> date \<Rightarrow> bool" where
  "in_period lo hi t \<longleftrightarrow> date_le lo t \<and> date_le t hi"

definition increasing :: "date list \<Rightarrow> bool" where
  "increasing ts \<longleftrightarrow> sorted_wrt date_le ts"

definition sel_time :: "date \<Rightarrow> date \<Rightarrow> field3 \<Rightarrow> error + field3" where
  "sel_time lo hi f =
     (if increasing (gtime f) then
        Inr (f\<lparr>gtime := filter (in_period lo hi) (gtime f),
               gval := map snd (filter (\<lambda>(t, g). in_period lo hi t)
                                       (zip (gtime f) (gval f)))\<rparr>)
      else Inl (KeyError ''time''))"

text \<open>
  \<^verbatim>\<open>.mean(dim='time')\<close>: at every grid point the mean over the time steps, skipping
  missing cells; the result lives on the (lat, lon) axes of the field.
\<close>

definition mean_time :: "field3 \<Rightarrow> field2" where
  "mean_time f =
     \<lparr>fname = gname f, flat = glat f, flon = glon f,
      fval = map (\<lambda>i. map (\<lambda>j. nanmean (map (\<lambda>g. g ! i ! j) (gval f)))
                          [0..<length (glon f)])
                 [0..<length (glat f)]\<rparr>"

section \<open>Radiation budget and cloud radiative forcing (radiation notebook)\<close>

text \<open>\<^verbatim>\<open>net_toa = dataset['rsdt']-dataset['rlut']-dataset['rsut']\<close>\<close>

definition net_toa :: "dataset \<Rightarrow> error + field3" where
  "net_toa ds =
     bind_err (getvar ds ''rsdt'') (\<lambda>rsdt.
     bind_err (getvar ds ''rlut'') (\<lambda>rlut.
     bind_err (sub3 rsdt rlut) (\<lambda>d.
     bind_err (getvar ds ''rsut'') (\<lambda>rsut.
       sub3 d rsut))))"

text \<open>
  \<^verbatim>\<open>(dataset[clear]-dataset[allsky]).sel(time=slice(lo, hi)).mean(dim='time')\<close>, the
  expression both forcing cells share; the notebook's period is 2010-01-01 to 2014-12-31.
\<close>

definition crf :: "string \<Rightarrow> string \<Rightarrow> dataset \<Rightarrow> date \<Rightarrow> date \<Rightarrow> error + field2" where
  "crf clear allsky ds lo hi =
     bind_err (getvar ds clear) (\<lambda>c.
     bind_err (getvar ds allsky) (\<lambda>a.
     bind_err (sub3 c a) (\<lambda>d.
     bind_err (sel_time lo hi d) (\<lambda>s.
       Inr (mean_time s)))))"

definition long_crf :: "dataset \<Rightarrow> date \<Rightarrow> date \<Rightarrow> error + field2" where
  "long_crf ds lo hi = crf ''rlutcs'' ''rlut'' ds lo hi"

definition short_crf :: "dataset \<Rightarrow> date \<Rightarrow> date \<Rightarrow> error + field2" where
  "short_crf ds lo hi = crf ''rsutcs'' ''rsut'' ds lo hi"

definition crf_period_lo :: date where
  "crf_period_lo = (2010, 1, 1)"

definition crf_period_hi :: date where
  "crf_period_hi = (2014, 12, 31)"

text \<open>
  The specification's wording, as a second definition: at a grid point, the mean over
  the time steps of the period of the clear-sky flux minus the all-sky flux.
\<close>

definition period_mean_difference ::
    "date list \<Rightarrow> date \<Rightarrow> date \<Rightarrow> grid list \<Rightarrow> grid list \<Rightarrow> nat \<Rightarrow> nat \<Rightarrow> cell" where
  "period_mean_difference ts lo hi clear allsky i j =
     nanmean (map (\<lambda>t. csub (clear ! t ! i ! j) (allsky ! t ! i ! j))
                  (filter (\<lambda>t. in_period lo hi (ts ! t)) [0..<length ts]))"

section \<open>Area-weighted means\<close>

text \<open>
  Weights along the latitude axis, as a labelled array:
  \<^verbatim>\<open>area_weights = np.cos(np.deg2rad(field.lat))\<close> carries the latitude axis it was
  computed from.
\<close>

record weights =
  wlat :: "real list"
  wval :: "real list"

definition area_weights :: "real list \<Rightarrow> weights" where
  "area_weights lats = \<lparr>wlat = lats, wval = map (\<lambda>l. cos (deg2rad l)) lats\<rparr>"

text \<open>
  The weighted reduction multiplies field and weights through the library's \<^verbatim>\<open>dot\<close>,
  which aligns the two latitude axes first; every kept latitude row is paired with the
  weight of its latitude.
\<close>

definition align_lat :: "real list \<Rightarrow> grid \<Rightarrow> weights \<Rightarrow> error + (cell list \<times> real) list" where
  "align_lat lats g w =
     bind_err (join_axis lats (wlat w))
       (\<lambda>ps. Inr (map (\<lambda>(i, i'). (g ! i, wval w ! i')) ps))"

text \<open>
  \<^verbatim>\<open>weighted_sum = dot(da.fillna(0), weights)\<close>,
  \<^verbatim>\<open>sum_of_weights = dot(da.notnull(), weights)\<close> masked where it is zero, and
  \<^verbatim>\<open>weighted_sum / sum_of_weights\<close>.
\<close>

definition weighted_sum :: "(cell list \<times> real) list \<Rightarrow> real" where
  "weighted_sum rows = (\<Sum>(row, wt) \<leftarrow> rows. \<Sum>c \<leftarrow> row. fillna0 c * wt)"

fun notnull :: "cell \<Rightarrow> real" where
  "notnull NaN = 0"
| "notnull (Val v) = 1"

definition sum_of_weights :: "(cell list \<times> real) list \<Rightarrow> cell" where
  "sum_of_weights rows =
     (let s = (\<Sum>(row, wt) \<leftarrow> rows. \<Sum>c \<leftarrow> row. notnull c * wt)
      in if s = 0 then NaN else Val s)"

definition weighted_mean_grid :: "real list \<Rightarrow> grid \<Rightarrow> weights \<Rightarrow> error + cell" where
  "weighted_mean_grid lats g w =
     bind_err (align_lat lats g w)
       (\<lambda>rows. Inr (case sum_of_weights rows of
                       NaN \<Rightarrow> NaN
                     | Val s \<Rightarrow> Val (weighted_sum rows / s)))"

text \<open>
  \<^verbatim>\<open>field.weighted(area_weights).mean(dim=['lon','lat'])\<close> on a (time, lat, lon) field:
  one weighted mean per time step.
\<close>

fun sequence_err :: "(error + 'a) list \<Rightarrow> error + 'a list" where
  "sequence_err [] = Inr []"
| "sequence_err (m # ms) =
     bind_err m (\<lambda>x. bind_err (sequence_err ms) (\<lambda>xs. Inr (x # xs)))"

definition weighted_mean_lonlat :: "field3 \<Rightarrow> weights \<Rightarrow> error + series" where
  "weighted_mean_lonlat f w =
     bind_err (sequence_err (map (\<lambda>g. weighted_mean_grid (glat f) g w) (gval f)))
       (\<lambda>vs. Inr \<lparr>stime = gtime f, sval = vs\<rparr>)"

text \<open>\<^verbatim>\<open>net_toa.weighted(area_weights).mean(dim=['lon','lat'])\<close> with the weights of the field
  itself, as both notebooks compute them.\<close>

definition area_weighted_mean :: "field3 \<Rightarrow> error + series" where
  "area_weighted_mean f = weighted_mean_lonlat f (area_weights (glat f))"

text \<open>
  The specification's wording, as a second definition: the sum over all cells of
  \<open>cos(lat_i) * x_ij\<close> divided by the sum over all cells of \<open>cos(lat_i)\<close>, in the arithmetic
  of the cells, where a missing term makes the sum missing (a quotient by zero has no
  value and is written \<open>NaN\<close>).
\<close>

fun cadd :: "cell \<Rightarrow> cell \<Rightarrow> cell" where
  "cadd (Val a) (Val b) = Val (a + b)"
| "cadd _ _ = NaN"

definition all_cells_quotient :: "real list \<Rightarrow> grid \<Rightarrow> cell" where
  "all_cells_quotient lats g =
     (let num = foldr cadd
                  (concat (map (\<lambda>(l, row). map (cmul (Val (cos (deg2rad l)))) row) (zip lats g)))
                  (Val 0);
          den = (\<Sum>(l, row) \<leftarrow> zip lats g. \<Sum>c \<leftarrow> row. cos (deg2rad l))
      in case num of
           NaN \<Rightarrow> NaN
         | Val n \<Rightarrow> if den = 0 then NaN else Val (n / den))"

text \<open>
  What the code computes, in the same words: both sums run over the cells that are not
  missing, and the mean is missing when the sum of their weights is zero.
\<close>

definition present :: "grid \<Rightarrow> (nat \<times> nat) list" where
  "present g =
     concat (map (\<lambda>i. map (Pair i) (filter (\<lambda>j. g ! i ! j \<noteq> NaN) [0..<length (g ! i)]))
                 [0..<length g])"

definition present_cells_quotient :: "real list \<Rightarrow> grid \<Rightarrow> cell" where
  "present_cells_quotient lats g =
     (let num = (\<Sum>(i, j) \<leftarrow> present g. cos (deg2rad (lats ! i)) * fillna0 (g ! i ! j));
          den = (\<Sum>(i, j) \<leftarrow> present g. cos (deg2rad (lats ! i)))
      in if den = 0 then NaN else Val (num / den))"

section \<open>Arithmetic between fields of different datasets\<close>

text \<open>Subtraction of two fields on (lat, lon), with the same alignment of the axes.\<close>

definition sub2 :: "field2 \<Rightarrow> field2 \<Rightarrow> error + field2" where
  "sub2 a b =
     bind_err (join_axis (flat a) (flat b)) (\<lambda>is.
     bind_err (join_axis (flon a) (flon b)) (\<lambda>js.
       Inr \<lparr>fname = (if fname a = fname b then fname a else None),
            flat = map (\<lambda>(i, i'). flat a ! i) is,
            flon = map (\<lambda>(j, j'). flon a ! j) js,
            fval = map (\<lambda>(i, i'). map (\<lambda>(j, j').
                      csub (fval a ! i ! j) (fval b ! i' ! j')) js) is\<rparr>))"

text \<open>
  The model-minus-CERES bias of the radiation notebook:
  \<^verbatim>\<open>right_ece = net_toa.sel(time=slice('2001-01-01', '2014-12-31')).mean(dim='time')\<close>,
  \<^verbatim>\<open>right_ceres = ceres['toa_net_all_mon'].sel(time=slice(...)).mean(dim='time')\<close>,
  \<^verbatim>\<open>bias = right_ece - right_ceres\<close> and \<^verbatim>\<open>bias.weighted(area_weights).mean()\<close>, where
  \<open>area_weights\<close> was computed from the latitude axis of \<open>net_toa\<close>.
\<close>

definition bias_period_lo :: date where
  "bias_period_lo = (2001, 1, 1)"

definition bias_period_hi :: date where
  "bias_period_hi = (2014, 12, 31)"

definition right_ece :: "dataset \<Rightarrow> error + field2" where
  "right_ece ds =
     bind_err (net_toa ds) (\<lambda>n.
     bind_err (sel_time bias_period_lo bias_period_hi n) (\<lambda>s.
       Inr (mean_time s)))"

definition right_ceres :: "dataset \<Rightarrow> error + field2" where
  "right_ceres ceres =
     bind_err (getvar ceres ''toa_net_all_mon'') (\<lambda>c.
     bind_err (sel_time bias_period_lo bias_period_hi c) (\<lambda>s.
       Inr (mean_time s)))"

definition bias :: "dataset \<Rightarrow> dataset \<Rightarrow> error + field2" where
  "bias ds ceres =
     bind_err (right_ece ds) (\<lambda>e.
     bind_err (right_ceres ceres) (\<lambda>c.
       sub2 e c))"

definition bias_weighted_mean :: "dataset \<Rightarrow> dataset \<Rightarrow> error + cell" where
  "bias_weighted_mean ds ceres =
     bind_err (bias ds ceres) (\<lambda>b.
       weighted_mean_grid (flat b) (fval b) (area_weights (ds_lat ds)))"

text \<open>
  The first notebook applies the weights of the EC-Earth dataset to the ERA5 field:
  \<^verbatim>\<open>area_weights = np.cos(np.deg2rad(data.lat))\<close> and
  \<^verbatim>\<open>era5['tas'].weighted(area_weights).mean(dim=['lon', 'lat'])\<close> (the yearly resampling
  that follows works on the resulting time series).
\<close>

definition era5_spatial_mean :: "dataset \<Rightarrow> dataset \<Rightarrow> error + series" where
  "era5_spatial_mean data era5 =
     bind_err (getvar era5 ''tas'')
       (\<lambda>tas. weighted_mean_lonlat tas (area_weights (ds_lat data)))"

text \<open>
  Small datasets on a common grid of two latitudes (the equator and 60 degrees north) and
  one longitude, used to run the computations above on concrete numbers.
\<close>

definition ece_example :: dataset where
  "ece_example =
     \<lparr>ds_time = [(2005, 7, 1), (2020, 7, 1)], ds_lat = [0, 60], ds_lon = [0],
      ds_vars = [''rsdt'' \<mapsto> [[[Val 340], [Val 200]], [[Val 341], [Val 201]]],
                 ''rlut'' \<mapsto> [[[Val 250], [Val 220]], [[Val 251], [Val 221]]],
                 ''rsut'' \<mapsto> [[[Val 100], [Val 50]], [[Val 101], [Val 51]]]]\<rparr>"

definition ceres_example :: dataset where
  "ceres_example =
     \<lparr>ds_time = [(2005, 7, 1)], ds_lat = [0, 60], ds_lon = [0],
      ds_vars = [''toa_net_all_mon'' \<mapsto> [[[Val (- 12)], [Val (- 60)]]]]\<rparr>"

definition era5_example :: dataset where
  "era5_example =
     \<lparr>ds_time = [(2000, 1, 1)], ds_lat = [0, 60], ds_lon = [0],
      ds_vars = [''tas'' \<mapsto> [[[Val 300], [Val 270]]]]\<rparr>"

section \<open>Files and the download script\<close>

text \<open>
  The content of a file is a NetCDF dataset, a compressed archive with its members, or
  other bytes. The file system is a list of paths with their contents.
\<close>

datatype content = NetCDF dataset | TarGz "(string \<times> dataset) list" | Other string

type_synonym fs = "(string \<times> content) list"

definition write_file :: "string \<Rightarrow> content \<Rightarrow> fs \<Rightarrow> fs" where
  "write_file p f files = AList.update p f files"

text \<open>
  The commands of \<^verbatim>\<open>download_data.sh\<close>, in the order of the script:
  \<^verbatim>\<open>echo "Download the USSP data"\<close>,
  \<^verbatim>\<open>wget http://wilma.to.isac.cnr.it/diss/paolo/ussp/ussp_data.tar.gz\<close>,
  \<^verbatim>\<open>echo "Unpack the USSP data"\<close>, \<^verbatim>\<open>tar xvfz ussp_data.tar.gz\<close>.
\<close>

datatype command = Echo string | Wget string | Tar string string

definition archive_url :: string where
  "archive_url = ''http://wilma.to.isac.cnr.it/diss/paolo/ussp/ussp_data.tar.gz''"

definition download_data_sh :: "command list" where
  "download_data_sh =
     [Echo ''Download the USSP data'',
      Wget archive_url,
      Echo ''Unpack the USSP data'',
      Tar ''xvfz'' ''ussp_data.tar.gz'']"

text \<open>
  The external programs are parameters: each takes its arguments and the file system and
  returns the file system it leaves and its exit status.
\<close>

record tools =
  wget_tool :: "string \<Rightarrow> fs \<Rightarrow> fs \<times> nat"
  tar_tool :: "string \<Rightarrow> string \<Rightarrow> fs \<Rightarrow> fs \<times> nat"

text \<open>
  The state of the shell that runs the script: the positional parameters of the
  invocation, the file system, the lines the script echoed, the exit status of the last
  command (\<^verbatim>\<open>$?\<close>) and the external programs run so far.
\<close>

record shell =
  sh_args :: "string list"
  sh_files :: fs
  sh_echoed :: "string list"
  sh_status :: nat
  sh_ran :: "command list"

fun run_command :: "tools \<Rightarrow> command \<Rightarrow> shell \<Rightarrow> shell" where
  "run_command T (Echo line) sh = sh\<lparr>sh_echoed := sh_echoed sh @ [line], sh_status := 0\<rparr>"
| "run_command T (Wget url) sh =
     (case wget_tool T url (sh_files sh) of
        (files, rc) \<Rightarrow>
          sh\<lparr>sh_files := files, sh_status := rc, sh_ran := sh_ran sh @ [Wget url]\<rparr>)"
| "run_command T (Tar opts archive) sh =
     (case tar_tool T opts archive (sh_files sh) of
        (files, rc) \<Rightarrow>
          sh\<lparr>sh_files := files, sh_status := rc, sh_ran := sh_ran sh @ [Tar opts archive]\<rparr>)"

text \<open>
  The script sets no \<^verbatim>\<open>-e\<close> option and tests no status: the shell runs the commands one
  after the other, and the status of the script is the status of its last command.
\<close>

fun run_script :: "tools \<Rightarrow> command list \<Rightarrow> shell \<Rightarrow> shell" where
  "run_script T [] sh = sh"
| "run_script T (c # cs) sh = run_script T cs (run_command T c sh)"

text \<open>\<^verbatim>\<open>bash download_data.sh args\<close> in a directory with the given files.\<close>

definition bash_download_data :: "tools \<Rightarrow> string list \<Rightarrow> fs \<Rightarrow> shell" where
  "bash_download_data T args files =
     run_script T download_data_sh
       \<lparr>sh_args = args, sh_files = files, sh_echoed = [], sh_status = 0, sh_ran = []\<rparr>"

text \<open>
  The usual behaviour of the two programs, for concrete runs of the script.
  \<^verbatim>\<open>wget url\<close> saves what the network serves under the last component of the URL (under
  that name with \<^verbatim>\<open>.1\<close> appended when the name is taken) and exits with 0, or exits with
  4 on a network failure. \<^verbatim>\<open>tar xvfz archive\<close> writes every member of the archive to its
  path, replacing a file that is there, and exits with 0, or exits with 2 when the archive
  is missing or is not an archive.
\<close>

definition basename :: "string \<Rightarrow> string" where
  "basename p = rev (takeWhile (\<lambda>c. c \<noteq> CHR ''/'') (rev p))"

definition wget :: "(string \<rightharpoonup> content) \<Rightarrow> string \<Rightarrow> fs \<Rightarrow> fs \<times> nat" where
  "wget net url files =
     (case net url of
        None \<Rightarrow> (files, 4)
      | Some f \<Rightarrow>
          (if map_of files (basename url) = None then (write_file (basename url) f files, 0)
           else (write_file (basename url @ ''.1'') f files, 0)))"

definition tar :: "string \<Rightarrow> string \<Rightarrow> fs \<Rightarrow> fs \<times> nat" where
  "tar opts archive files =
     (case map_of files archive of
        Some (TarGz members) \<Rightarrow>
          (fold (\<lambda>(p, d). write_file p (NetCDF d)) members files, 0)
      | _ \<Rightarrow> (files, 2))"

definition unix_tools :: "(string \<rightharpoonup> content) \<Rightarrow> tools" where
  "unix_tools net = \<lparr>wget_tool = wget net, tar_tool = tar\<rparr>"

section \<open>The comparison plot (paleoclimate notebook)\<close>

text \<open>
  The fields a notebook holds are objects on a heap, named through references. The
  arguments of \<open>compare_plot\<close> in the notebook are dataset variables on (time, lat, lon).
\<close>

type_synonym heap = "field3 list"

definition alloc :: "field3 \<Rightarrow> heap \<Rightarrow> heap \<times> nat" where
  "alloc v h = (h @ [v], length h)"

definition deref :: "heap \<Rightarrow> nat \<Rightarrow> error + field3" where
  "deref h r = (if r < length h then Inr (h ! r) else Inl IndexError)"

text \<open>
  A figure is the list of its panels. A panel records the field drawn on it, the colour
  limits and colour map given to the drawing call, its title and whether coastlines were
  added.
\<close>

record panel =
  p_image :: "field3 option"
  p_vmin :: "real option"
  p_vmax :: "real option"
  p_cmap :: "string option"
  p_title :: "string option"
  p_coast :: bool

definition empty_panel :: panel where
  "empty_panel =
     \<lparr>p_image = None, p_vmin = None, p_vmax = None, p_cmap = None, p_title = None,
      p_coast = False\<rparr>"

text \<open>\<^verbatim>\<open>plt.subplots(n, 1, ...)\<close>: a figure with \<open>n\<close> empty panels in one column.\<close>

definition subplots :: "nat \<Rightarrow> panel list" where
  "subplots n = replicate n empty_panel"

definition on_panel :: "nat \<Rightarrow> (panel \<Rightarrow> panel) \<Rightarrow> panel list \<Rightarrow> error + panel list" where
  "on_panel i f fig = (if i < length fig then Inr (fig[i := f (fig ! i)]) else Inl IndexError)"

text \<open>
  \<^verbatim>\<open>field.plot(...)\<close> drops the axes of length one and chooses the kind of plot by the number
  of axes left: with none, or with an empty axis, it raises \<^verbatim>\<open>TypeError\<close> (no numeric data
  to plot); with two it draws a map; with one it draws a line and with three a histogram,
  and those two reject the keywords \<^verbatim>\<open>vmin\<close>, \<^verbatim>\<open>vmax\<close> and \<^verbatim>\<open>cmap\<close> that \<open>compare_plot\<close> always
  passes (\<^verbatim>\<open>AttributeError\<close>).
\<close>

definition plot_dims :: "field3 \<Rightarrow> nat list" where
  "plot_dims f = filter (\<lambda>n. n \<noteq> 1) [length (gtime f), length (glat f), length (glon f)]"

definition check_map :: "field3 \<Rightarrow> error + unit" where
  "check_map f =
     (if plot_dims f = [] \<or> 0 \<in> set (plot_dims f) then Inl TypeError
      else if length (plot_dims f) = 2 then Inr ()
      else Inl AttributeError)"

text \<open>\<^verbatim>\<open>field.plot(ax=axs[i], vmin=.., vmax=.., cmap=..)\<close>, \<^verbatim>\<open>axs[i].set_title(t)\<close> and
  \<^verbatim>\<open>axs[i].coastlines()\<close>.\<close>

definition plot_on ::
    "nat \<Rightarrow> field3 \<Rightarrow> real option \<Rightarrow> real option \<Rightarrow> string option \<Rightarrow> panel list
     \<Rightarrow> error + panel list" where
  "plot_on i f vmin vmax cmap fig =
     bind_err (check_map f) (\<lambda>_.
       on_panel i (\<lambda>p. p\<lparr>p_image := Some f, p_vmin := vmin, p_vmax := vmax, p_cmap := cmap\<rparr>)
         fig)"

definition set_title :: "nat \<Rightarrow> string option \<Rightarrow> panel list \<Rightarrow> error + panel list" where
  "set_title i t fig = on_panel i (\<lambda>p. p\<lparr>p_title := t\<rparr>) fig"

definition coastlines :: "nat \<Rightarrow> panel list \<Rightarrow> error + panel list" where
  "coastlines i fig = on_panel i (\<lambda>p. p\<lparr>p_coast := True\<rparr>) fig"

text \<open>
  \<^verbatim>\<open>compare_plot(field1, field2, vmin=None, vmax=None)\<close>, statement by statement; the three
  statements that would draw \<open>field2\<close> are commented out in the source. The difference
  \<^verbatim>\<open>field1-field2\<close> is a new object on the heap.
\<close>

definition compare_plot ::
    "nat \<Rightarrow> nat \<Rightarrow> real option \<Rightarrow> real option \<Rightarrow> heap \<Rightarrow> error + heap \<times> panel list" where
  "compare_plot field1 field2 vmin vmax h =
     bind_err (deref h field1) (\<lambda>f1.
     bind_err (deref h field2) (\<lambda>f2.
     bind_err (plot_on 0 f1 vmin vmax None (subplots 2)) (\<lambda>fig1.
     bind_err (set_title 0 (gname f1) fig1) (\<lambda>fig2.
     bind_err (coastlines 0 fig2) (\<lambda>fig3.
     bind_err (sub3 f1 f2) (\<lambda>d.
     bind_err (plot_on 1 d None None (Some ''seismic'') fig3) (\<lambda>fig4.
     bind_err (set_title 1 (Some ''DELTA'') fig4) (\<lambda>fig5.
     bind_err (coastlines 1 fig5) (\<lambda>fig6.
       Inr (fst (alloc d h), fig6))))))))))"





section \<open>Basic facts about cells\<close>

lemma valid_map_Val: "valid (map Val xs) = xs"
  by (induction xs) simp_all

lemma nanmean_map_Val:
  "xs \<noteq> [] \<Longrightarrow> nanmean (map Val xs) = Val (sum_list xs / real (length xs))"
  by (simp add: nanmean_def valid_map_Val)

lemma length_cumsum_from: "length (cumsum_from acc xs) = length xs"
  by (induction xs arbitrary: acc) simp_all

lemma cumsum_from_nth:
  "i < length xs \<Longrightarrow> cumsum_from acc xs ! i = acc + sum_list (take (Suc i) xs)"
proof (induction xs arbitrary: acc i)
  case Nil
  then show ?case by simp
next
  case (Cons x xs)
  show ?case
  proof (cases i)
    case 0
    then show ?thesis by simp
  next
    case (Suc k)
    with Cons.prems have "k < length xs" by simp
    from Cons.IH [OF this, of "acc + x"] Suc show ?thesis by simp
  qed
qed

section \<open>Poleward heat transport: the running sum\<close>

lemma nancumsum_nth:
  "i < length xs \<Longrightarrow> nancumsum (map Val xs) ! i = Val (sum_list (take (Suc i) xs))"
  by (simp add: nancumsum_def comp_def length_cumsum_from cumsum_from_nth)

lemma length_nancumsum: "length (nancumsum cs) = length cs"
  by (simp add: nancumsum_def length_cumsum_from)

lemma filter_less_upt: "m \<le> n \<Longrightarrow> filter (\<lambda>j. j < m) [0..<n] = [0..<m]"
proof (induction n)
  case 0
  then show ?case by simp
next
  case (Suc n)
  show ?case
  proof (cases "m \<le> n")
    case True
    with Suc.IH show ?thesis by simp
  next
    case False
    with Suc.prems have m: "m = Suc n" by simp
    have "filter (\<lambda>j. j < Suc n) [0..<n] = [0..<n]"
      by (rule filter_True) simp
    with m show ?thesis by simp
  qed
qed

lemma strict_sorted_nth_le:
  assumes "sorted_wrt (<) (lats::real list)" "i < length lats" "j < length lats"
  shows "lats ! j \<le> lats ! i \<longleftrightarrow> j \<le> i"
proof
  assume le: "lats ! j \<le> lats ! i"
  show "j \<le> i"
  proof (rule ccontr)
    assume "\<not> j \<le> i"
    then have "i < j" by simp
    from sorted_wrt_nth_less [OF assms(1) this assms(3)] le show False by simp
  qed
next
  assume "j \<le> i"
  then consider "j = i" | "j < i" by linarith
  then show "lats ! j \<le> lats ! i"
  proof cases
    case 1
    then show ?thesis by simp
  next
    case 2
    from sorted_wrt_nth_less [OF assms(1) this assms(2)] show ?thesis by simp
  qed
qed

lemma south_indices:
  assumes "sorted_wrt (<) (lats::real list)" "i < length lats"
  shows "filter (\<lambda>j. lats ! j \<le> lats ! i) [0..<length lats] = [0..<Suc i]"
proof -
  have "filter (\<lambda>j. lats ! j \<le> lats ! i) [0..<length lats]
        = filter (\<lambda>j. j < Suc i) [0..<length lats]"
    by (rule filter_cong) (auto simp: strict_sorted_nth_le [OF assms])
  also have "\<dots> = [0..<Suc i]"
    using assms(2) by (intro filter_less_upt) simp
  finally show ?thesis .
qed

lemma take_as_map_nth: "n \<le> length ys \<Longrightarrow> take n ys = map (\<lambda>j. ys ! j) [0..<n]"
  by (simp add: list_eq_iff_nth_eq)

lemma sum_list_take_nth:
  "i < length xs \<Longrightarrow> sum_list (take (Suc i) (map f xs)) = (\<Sum>j \<leftarrow> [0..<Suc i]. f (xs ! j))"
proof -
  assume i: "i < length xs"
  then have "take (Suc i) (map f xs) = map (\<lambda>j. map f xs ! j) [0..<Suc i]"
    by (intro take_as_map_nth) simp
  also have "\<dots> = map (\<lambda>j. f (xs ! j)) [0..<Suc i]"
    using i by (intro map_cong) auto
  finally show ?thesis by simp
qed

lemma anomalies_Val:
  "xs \<noteq> [] \<Longrightarrow>
   map (\<lambda>c. csub c (nanmean (map Val xs))) (map Val xs)
     = map Val (map (\<lambda>x. x - sum_list xs / real (length xs)) xs)"
  by (simp add: nanmean_map_Val)

text \<open>
  What the code computes on every axis order: for a zonal-mean field with at least one
  latitude and no missing value, the transport at position \<open>i\<close> of the latitude axis is the
  sum of the mean-removed field over the positions \<open>0..i\<close> of the axis, times \<open>dlon * dlat\<close>
  with \<open>dlon = 2*pi*6370000*cos(latitude)\<close> (latitude in degrees, converted to radians) and
  \<open>dlat = pi*6370000/n\<close>, divided by \<open>10^15\<close>. When the axis is stored in ascending order,
  that is the sum over all latitudes at or south of latitude \<open>i\<close>, as the specification
  words it.
\<close>

lemma global_transport_running_sum:
  assumes vals: "zval z = map Val xs"
    and len: "length (zlat z) = length xs"
    and ne: "xs \<noteq> []"
    and i: "i < length xs"
  shows "\<exists>t. global_transport z = Inr t \<and> zlat t = zlat z \<and> length (zval t) = length xs \<and>
           zval t ! i =
             Val ((\<Sum>j \<leftarrow> [0..<Suc i]. (xs ! j - sum_list xs / real (length xs)))
                  * (2 * pi * 6370000 * cos (zlat z ! i * pi / 180))
                  * (pi * 6370000 / real (length xs)) / 10 ^ 15) \<and>
           (sorted_wrt (<) (zlat z) \<longrightarrow>
              zval t ! i = Val (transport_south_to_north (zlat z) xs i))"
proof -
  define m where "m = sum_list xs / real (length xs)"
  define d where "d = pi * Earth / real (length xs)"
  define cs where "cs = nancumsum (map (\<lambda>c. csub c (nanmean (zval z))) (zval z))"
  define t where "t = z\<lparr>zval :=
            map (\<lambda>(c, dl). cdiv_const (cmul (cmul c (Val dl)) (Val d)) (10 ^ 15))
              (zip cs (dlon z))\<rparr>"
  have dl: "dlat z = Inr d"
    using len ne by (simp add: dlat_def d_def)
  have gt: "global_transport z = Inr t"
    by (simp add: global_transport_def dl t_def cs_def)
  have cs_eq: "cs = nancumsum (map Val (map (\<lambda>x. x - m) xs))"
    unfolding cs_def vals m_def by (simp only: anomalies_Val [OF ne])
  have len_cs: "length cs = length xs"
    by (simp add: cs_eq length_nancumsum)
  have len_dlon: "length (dlon z) = length xs"
    by (simp add: dlon_def len)
  have cs_i: "cs ! i = Val (\<Sum>j \<leftarrow> [0..<Suc i]. (xs ! j - m))"
  proof -
    have "cs ! i = Val (sum_list (take (Suc i) (map (\<lambda>x. x - m) xs)))"
      unfolding cs_eq by (rule nancumsum_nth) (simp add: i)
    then show ?thesis
      by (simp only: sum_list_take_nth [OF i])
  qed
  have dlon_i: "dlon z ! i = 2 * pi * Earth * cos (deg2rad (zlat z ! i))"
    using i len by (simp add: dlon_def)
  have ti: "zval t ! i =
      Val ((\<Sum>j \<leftarrow> [0..<Suc i]. (xs ! j - m)) * (2 * pi * 6370000 * cos (zlat z ! i * pi / 180))
            * (pi * 6370000 / real (length xs)) / 10 ^ 15)"
    using i len_cs len_dlon
    by (simp add: t_def cs_i dlon_i d_def Earth_def deg2rad_def)
  have south: "zval t ! i = Val (transport_south_to_north (zlat z) xs i)"
    if "sorted_wrt (<) (zlat z)"
  proof -
    from south_indices [OF that, of i] i len
    have "filter (\<lambda>j. zlat z ! j \<le> zlat z ! i) [0..<length xs] = [0..<Suc i]" by simp
    then show ?thesis
      unfolding transport_south_to_north_def ti m_def by simp
  qed
  have "zlat t = zlat z" "length (zval t) = length xs"
    by (simp_all add: t_def len_cs len_dlon)
  with gt ti south show ?thesis
    unfolding m_def by blast
qed

text \<open>The lemma at a three-latitude field stored south to north, at the equator.\<close>

lemma global_transport_running_sum_example:
  "sorted_wrt (<) [-60, 0, 60 :: real] \<and>
   (\<exists>t. global_transport \<lparr>zlat = [-60, 0, 60], zval = [Val 1, Val 4, Val 4]\<rparr> = Inr t \<and>
        zlat t = [-60, 0, 60] \<and> length (zval t) = 3 \<and>
        zval t ! 1 = Val (- 1 * (2 * pi * 6370000) * (pi * 6370000 / 3) / 10 ^ 15) \<and>
        zval t ! 1 = Val (transport_south_to_north [-60, 0, 60] [1, 4, 4] 1))"
  using global_transport_running_sum
    [of "\<lparr>zlat = [-60, 0, 60], zval = [Val 1, Val 4, Val 4]\<rparr>" "[1, 4, 4]" 1]
  by (simp add: upt_rec numeral_3_eq_3)

text \<open>
  C1. The transport at each latitude is meant to be the running sum, from the southernmost
  latitude northward, of the mean-removed zonal mean, times \<open>dlon * dlat / 10^15\<close>; the
  notebook's text says the same (the integral runs from the South Pole to the North Pole).
  The code sums in the storage order of the latitude axis. On the axis \<open>[0, -30]\<close>, stored
  north to south, with the values \<open>[1, 3]\<close>, it returns a non-zero transport at the first
  position (latitude 0), where the sum from the southernmost latitude northward is zero.
\<close>

theorem global_transport_on_descending_axis:
  "global_transport \<lparr>zlat = [0, -30], zval = [Val 1, Val 3]\<rparr>
     = Inr \<lparr>zlat = [0, -30], zval = [Val (- ((pi * 6370000)\<^sup>2) / 10 ^ 15), Val 0]\<rparr> \<and>
   transport_south_to_north [0, -30] [1, 3] 0 = 0 \<and>
   Val (- ((pi * 6370000)\<^sup>2) / 10 ^ 15) \<noteq> Val (transport_south_to_north [0, -30] [1, 3] 0)"
proof -
  have a: "global_transport \<lparr>zlat = [0, -30], zval = [Val 1, Val 3]\<rparr>
     = Inr \<lparr>zlat = [0, -30], zval = [Val (- ((pi * 6370000)\<^sup>2) / 10 ^ 15), Val 0]\<rparr>"
    by (simp add: global_transport_def dlat_def dlon_def nanmean_def nancumsum_def
        Earth_def deg2rad_def power2_eq_square)
  have b: "transport_south_to_north [0, -30] [1, 3] 0 = 0"
    by (simp add: transport_south_to_north_def upt_rec)
  show ?thesis
    by (simp add: a b)
qed

section \<open>Area-weighted means: the cosine formula\<close>

lemma bind_err_Inr [simp]: "bind_err (Inr x) k = k x"
  by (simp add: bind_err_def)

lemma bind_err_Inl [simp]: "bind_err (Inl e) k = Inl e"
  by (simp add: bind_err_def)

lemma bind_err_Inr_iff:
  "bind_err m k = Inr y \<longleftrightarrow> (\<exists>x. m = Inr x \<and> k x = Inr y)"
  by (cases m) simp_all

lemma join_axis_same: "join_axis la la = Inr (map (\<lambda>i. (i, i)) [0..<length la])"
  by (simp add: join_axis_def)

lemma sequence_err_Inr: "sequence_err (map (\<lambda>x. Inr (f x)) xs) = Inr (map f xs)"
  by (induction xs) simp_all

lemma sum_list_row_indices:
  "(\<Sum>c \<leftarrow> row. f c) = (\<Sum>j \<leftarrow> [0..<length row]. f (row ! j))"
proof -
  have "map f row = map (\<lambda>j. f (row ! j)) [0..<length row]"
    by (rule nth_equalityI) simp_all
  then show ?thesis by simp
qed

lemma sum_list_present_row:
  assumes "\<And>c. c = NaN \<Longrightarrow> f c = 0"
  shows "(\<Sum>c \<leftarrow> row. f c)
         = (\<Sum>j \<leftarrow> filter (\<lambda>j. row ! j \<noteq> NaN) [0..<length row]. f (row ! j))"
proof -
  have "(\<Sum>j \<leftarrow> filter (\<lambda>j. row ! j \<noteq> NaN) [0..<length row]. f (row ! j))
        = (\<Sum>j \<leftarrow> [0..<length row]. f (row ! j))"
    by (rule sum_list_map_filter) (simp add: assms)
  then show ?thesis
    by (simp add: sum_list_row_indices [of f row])
qed

lemma sum_list_concat_map:
  "(\<Sum>x \<leftarrow> concat xss. f x) = (\<Sum>xs \<leftarrow> xss. \<Sum>x \<leftarrow> xs. f x)"
  by (induction xss) simp_all

lemma notnull_present:
  "(\<Sum>j \<leftarrow> filter (\<lambda>j. row ! j \<noteq> NaN) xs. notnull (row ! j) * x)
     = (\<Sum>j \<leftarrow> filter (\<lambda>j. row ! j \<noteq> NaN) xs. x)"
proof (induction xs)
  case Nil
  then show ?case by simp
next
  case (Cons j xs)
  then show ?case by (cases "row ! j") simp_all
qed

lemma sum_list_present:
  "(\<Sum>(i, j) \<leftarrow> present g. F i j)
     = (\<Sum>i \<leftarrow> [0..<length g]. \<Sum>j \<leftarrow> filter (\<lambda>j. g ! i ! j \<noteq> NaN) [0..<length (g ! i)]. F i j)"
  by (simp add: present_def sum_list_concat_map comp_def)

lemma weighted_sum_present:
  "weighted_sum (map (\<lambda>i. (g ! i, w i)) [0..<length g])
     = (\<Sum>(i, j) \<leftarrow> present g. w i * fillna0 (g ! i ! j))"
proof -
  have "weighted_sum (map (\<lambda>i. (g ! i, w i)) [0..<length g])
        = (\<Sum>i \<leftarrow> [0..<length g]. \<Sum>c \<leftarrow> g ! i. fillna0 c * w i)"
    by (simp add: weighted_sum_def comp_def)
  also have "\<dots> = (\<Sum>i \<leftarrow> [0..<length g].
        \<Sum>j \<leftarrow> filter (\<lambda>j. g ! i ! j \<noteq> NaN) [0..<length (g ! i)]. w i * fillna0 (g ! i ! j))"
    by (simp add: sum_list_present_row [of "\<lambda>c. fillna0 c * w i" for i] mult.commute)
  finally show ?thesis
    by (simp add: sum_list_present)
qed

lemma total_weight_present:
  "(\<Sum>(row, wt) \<leftarrow> map (\<lambda>i. (g ! i, w i)) [0..<length g]. \<Sum>c \<leftarrow> row. notnull c * wt)
     = (\<Sum>(i, j) \<leftarrow> present g. w i)"
proof -
  have "(\<Sum>(row, wt) \<leftarrow> map (\<lambda>i. (g ! i, w i)) [0..<length g]. \<Sum>c \<leftarrow> row. notnull c * wt)
        = (\<Sum>i \<leftarrow> [0..<length g]. \<Sum>c \<leftarrow> g ! i. notnull c * w i)"
    by (simp add: comp_def)
  also have "\<dots> = (\<Sum>i \<leftarrow> [0..<length g].
        \<Sum>j \<leftarrow> filter (\<lambda>j. g ! i ! j \<noteq> NaN) [0..<length (g ! i)]. notnull (g ! i ! j) * w i)"
    by (simp add: sum_list_present_row [of "\<lambda>c. notnull c * w i" for i])
  also have "\<dots> = (\<Sum>i \<leftarrow> [0..<length g].
        \<Sum>j \<leftarrow> filter (\<lambda>j. g ! i ! j \<noteq> NaN) [0..<length (g ! i)]. w i)"
    by (simp only: notnull_present)
  finally show ?thesis
    by (simp add: sum_list_present)
qed

lemma own_weights_rows:
  assumes "length g = length lats"
  shows "align_lat lats g (area_weights lats)
         = Inr (map (\<lambda>i. (g ! i, cos (deg2rad (lats ! i)))) [0..<length g])"
proof -
  have "map (\<lambda>(i, i'). (g ! i, map (\<lambda>l. cos (deg2rad l)) lats ! i'))
            (map (\<lambda>i. (i, i)) [0..<length lats])
        = map (\<lambda>i. (g ! i, cos (deg2rad (lats ! i)))) [0..<length lats]"
    by (simp add: comp_def)
  then show ?thesis
    by (simp add: align_lat_def area_weights_def join_axis_same assms)
qed

lemma weighted_mean_grid_own_weights:
  assumes "length g = length lats"
  shows "weighted_mean_grid lats g (area_weights lats) = Inr (present_cells_quotient lats g)"
proof -
  let ?w = "\<lambda>i. cos (deg2rad (lats ! i))"
  let ?rows = "map (\<lambda>i. (g ! i, ?w i)) [0..<length g]"
  have num: "weighted_sum ?rows = (\<Sum>(i, j) \<leftarrow> present g. ?w i * fillna0 (g ! i ! j))"
    by (rule weighted_sum_present)
  have den: "(\<Sum>(row, wt) \<leftarrow> ?rows. \<Sum>c \<leftarrow> row. notnull c * wt) = (\<Sum>(i, j) \<leftarrow> present g. ?w i)"
    by (rule total_weight_present)
  have sw: "sum_of_weights ?rows
      = (if (\<Sum>(i, j) \<leftarrow> present g. ?w i) = 0 then NaN
         else Val (\<Sum>(i, j) \<leftarrow> present g. ?w i))"
    unfolding sum_of_weights_def Let_def den ..
  have "weighted_mean_grid lats g (area_weights lats)
      = Inr (case sum_of_weights ?rows of NaN \<Rightarrow> NaN | Val s \<Rightarrow> Val (weighted_sum ?rows / s))"
    unfolding weighted_mean_grid_def own_weights_rows [OF assms] by (simp only: bind_err_Inr)
  also have "(case sum_of_weights ?rows of NaN \<Rightarrow> NaN | Val s \<Rightarrow> Val (weighted_sum ?rows / s))
      = present_cells_quotient lats g"
    unfolding sw num present_cells_quotient_def Let_def by simp
  finally show ?thesis .
qed

lemma weighted_mean_grid_own_weights_Inr:
  "\<exists>c. weighted_mean_grid lats g (area_weights lats) = Inr c"
  by (simp add: weighted_mean_grid_def align_lat_def area_weights_def join_axis_same)

lemma sequence_err_all_Inr:
  assumes "\<And>x. x \<in> set xs \<Longrightarrow> \<exists>y. f x = Inr y"
  shows "\<exists>ys. sequence_err (map f xs) = Inr ys \<and> length ys = length xs \<and>
           (\<forall>k<length xs. f (xs ! k) = Inr (ys ! k))"
  using assms
proof (induction xs)
  case Nil
  then show ?case by simp
next
  case (Cons x xs)
  from Cons.prems obtain y where y: "f x = Inr y" by auto
  from Cons.IH Cons.prems obtain ys where ys: "sequence_err (map f xs) = Inr ys"
    "length ys = length xs" "\<forall>k<length xs. f (xs ! k) = Inr (ys ! k)"
    by auto
  have "\<forall>k<length (x # xs). f ((x # xs) ! k) = Inr ((y # ys) ! k)"
    using y ys(3) by (auto simp: nth_Cons split: nat.splits)
  with y ys(1) ys(2) show ?case by auto
qed

text \<open>
  C2. For every field on (time, lat, lon) and every time step whose grid has one row per
  latitude, the weighted mean over the lon and lat axes with the weights \<open>cos(lat)\<close>
  (latitude in degrees, converted to radians) is the sum over the cells that are not
  missing of \<open>cos(lat_i) * x_ij\<close> divided by the sum over the same cells of \<open>cos(lat_i)\<close>, and
  is missing when that sum of weights is zero. The computation never fails.
\<close>

theorem area_weighted_mean_over_present_cells:
  assumes "t < length (gval f)" and "length (gval f ! t) = length (glat f)"
  shows "\<exists>s. area_weighted_mean f = Inr s \<and> stime s = gtime f \<and>
           length (sval s) = length (gval f) \<and>
           sval s ! t = present_cells_quotient (glat f) (gval f ! t)"
proof -
  let ?wm = "\<lambda>g. weighted_mean_grid (glat f) g (area_weights (glat f))"
  from sequence_err_all_Inr [of "gval f" ?wm] weighted_mean_grid_own_weights_Inr
  obtain vs where vs: "sequence_err (map ?wm (gval f)) = Inr vs" "length vs = length (gval f)"
    "\<forall>k<length (gval f). ?wm (gval f ! k) = Inr (vs ! k)"
    by blast
  from vs(3) assms(1) have "?wm (gval f ! t) = Inr (vs ! t)" by simp
  with weighted_mean_grid_own_weights [OF assms(2)]
  have "vs ! t = present_cells_quotient (glat f) (gval f ! t)" by simp
  moreover have "area_weighted_mean f = Inr \<lparr>stime = gtime f, sval = vs\<rparr>"
    by (simp add: area_weighted_mean_def weighted_mean_lonlat_def vs(1))
  ultimately show ?thesis
    using vs(2) by simp
qed

text \<open>
  The theorem on a grid of two latitudes (the equator and 60 degrees) and two longitudes
  with one missing cell: the three cells that are there give \<open>(1 + 5/2 + 7/2) / 2\<close>.
\<close>

theorem area_weighted_mean_over_present_cells_witness:
  "\<exists>s. area_weighted_mean
      \<lparr>gname = None, gtime = [(2000, 1, 1)], glat = [0, 60], glon = [10, 20],
       gval = [[[Val 1, NaN], [Val 5, Val 7]]]\<rparr> = Inr s \<and>
     stime s = [(2000, 1, 1)] \<and> length (sval s) = 1 \<and> sval s ! 0 = Val (7 / 2)"
  using area_weighted_mean_over_present_cells
    [of 0 "\<lparr>gname = None, gtime = [(2000, 1, 1)], glat = [0, 60], glon = [10, 20],
       gval = [[[Val 1, NaN], [Val 5, Val 7]]]\<rparr>"]
  by (simp add: present_cells_quotient_def present_def deg2rad_def cos_60)

text \<open>
  With a missing cell the mean is not the quotient over all cells: on the one-column
  grid with a missing cell at the equator and 8 at 60 degrees the code returns 8, the
  mean of the cell that is there, where the quotient over all cells has no value.
\<close>

theorem area_weighted_mean_missing_cell_counterexample:
  "area_weighted_mean
      \<lparr>gname = None, gtime = [(2000, 1, 1)], glat = [0, 60], glon = [10],
       gval = [[[NaN], [Val 8]]]\<rparr>
     = Inr \<lparr>stime = [(2000, 1, 1)], sval = [Val 8]\<rparr> \<and>
   all_cells_quotient [0, 60] [[NaN], [Val 8]] = NaN \<and>
   Val 8 \<noteq> all_cells_quotient [0, 60] [[NaN], [Val 8]]"
proof -
  have a: "area_weighted_mean
      \<lparr>gname = None, gtime = [(2000, 1, 1)], glat = [0, 60], glon = [10],
       gval = [[[NaN], [Val 8]]]\<rparr>
     = Inr \<lparr>stime = [(2000, 1, 1)], sval = [Val 8]\<rparr>"
    by (simp add: area_weighted_mean_def weighted_mean_lonlat_def weighted_mean_grid_def
        align_lat_def area_weights_def join_axis_same sum_of_weights_def weighted_sum_def
        deg2rad_def cos_60 upt_rec)
  have b: "all_cells_quotient [0, 60] [[NaN], [Val 8]] = NaN"
    by (simp add: all_cells_quotient_def)
  show ?thesis
    by (simp add: a b)
qed

lemma foldr_cadd_Val: "foldr cadd (map Val ys) (Val 0) = Val (sum_list ys)"
  by (induction ys) simp_all

lemma sum_list_zip_indices:
  assumes "length xs = length ys"
  shows "(\<Sum>(x, y) \<leftarrow> zip xs ys. G x y) = (\<Sum>i \<leftarrow> [0..<length ys]. G (xs ! i) (ys ! i))"
proof -
  have "zip xs ys = map (\<lambda>i. (xs ! i, ys ! i)) [0..<length ys]"
    using assms by (intro nth_equalityI) simp_all
  then have "map (\<lambda>(x, y). G x y) (zip xs ys) = map (\<lambda>i. G (xs ! i) (ys ! i)) [0..<length ys]"
    by (simp add: comp_def)
  then show ?thesis by simp
qed

lemma present_all_Val:
  "(\<Sum>(i, j) \<leftarrow> present (map (map Val) xs). F i j)
     = (\<Sum>i \<leftarrow> [0..<length xs]. \<Sum>j \<leftarrow> [0..<length (xs ! i)]. F i j)"
proof -
  have "(\<Sum>j \<leftarrow> filter (\<lambda>j. map (map Val) xs ! i ! j \<noteq> NaN) [0..<length (map (map Val) xs ! i)]. F i j)
      = (\<Sum>j \<leftarrow> [0..<length (xs ! i)]. F i j)" if "i \<in> set [0..<length xs]" for i
  proof -
    from that have i: "i < length xs" by simp
    have "filter (\<lambda>j. map Val (xs ! i) ! j \<noteq> NaN) [0..<length (xs ! i)] = [0..<length (xs ! i)]"
      by (rule filter_True) simp
    with i show ?thesis by simp
  qed
  then have "map (\<lambda>i. \<Sum>j \<leftarrow> filter (\<lambda>j. map (map Val) xs ! i ! j \<noteq> NaN)
                               [0..<length (map (map Val) xs ! i)]. F i j) [0..<length xs]
      = map (\<lambda>i. \<Sum>j \<leftarrow> [0..<length (xs ! i)]. F i j) [0..<length xs]"
    by (intro map_cong refl)
  then show ?thesis
    unfolding sum_list_present length_map by (rule arg_cong [where f = sum_list])
qed

lemma sum_list_concat: "sum_list (concat xss) = (\<Sum>xs \<leftarrow> xss. sum_list xs)"
  by (induction xss) simp_all

lemma weighted_cells_Val:
  "concat (map (\<lambda>(l, row). map (cmul (Val (w l))) row) (zip lats (map (map Val) xs)))
      = map Val (concat (map (\<lambda>(l, row). map (\<lambda>x. w l * x) row) (zip lats xs)))"
proof (induction xs arbitrary: lats)
  case Nil
  then show ?case by simp
next
  case (Cons x xs)
  then show ?case by (cases lats) (simp_all add: comp_def)
qed

lemma all_cells_numerator:
  assumes "length xs = length lats"
  shows "foldr cadd
       (concat (map (\<lambda>(l, row). map (cmul (Val (w l))) row) (zip lats (map (map Val) xs))))
       (Val 0)
      = Val (\<Sum>i \<leftarrow> [0..<length xs]. \<Sum>j \<leftarrow> [0..<length (xs ! i)]. w (lats ! i) * xs ! i ! j)"
proof -
  have "sum_list (concat (map (\<lambda>(l, row). map (\<lambda>x. w l * x) row) (zip lats xs)))
      = (\<Sum>(l, row) \<leftarrow> zip lats xs. \<Sum>x \<leftarrow> row. w l * x)"
    unfolding sum_list_concat by (simp only: map_map comp_def case_prod_unfold)
  also have "\<dots> = (\<Sum>i \<leftarrow> [0..<length xs]. \<Sum>x \<leftarrow> xs ! i. w (lats ! i) * x)"
    using assms by (intro sum_list_zip_indices) simp
  also have "\<dots> = (\<Sum>i \<leftarrow> [0..<length xs]. \<Sum>j \<leftarrow> [0..<length (xs ! i)]. w (lats ! i) * xs ! i ! j)"
    by (simp only: sum_list_row_indices [of "\<lambda>x. w (lats ! i) * x" for i])
  finally show ?thesis
    unfolding weighted_cells_Val foldr_cadd_Val by (simp only:)
qed

lemma all_cells_denominator:
  assumes "length xs = length lats"
  shows "(\<Sum>(l, row) \<leftarrow> zip lats (map (map Val) xs). \<Sum>c \<leftarrow> row. w l)
      = (\<Sum>i \<leftarrow> [0..<length xs]. \<Sum>j \<leftarrow> [0..<length (xs ! i)]. (w (lats ! i) :: real))"
proof -
  have "(\<Sum>(l, row) \<leftarrow> zip lats (map (map Val) xs). \<Sum>c \<leftarrow> row. w l)
      = (\<Sum>i \<leftarrow> [0..<length (map (map Val) xs)]. \<Sum>c \<leftarrow> map (map Val) xs ! i. w (lats ! i))"
    using assms by (intro sum_list_zip_indices) simp
  also have "\<dots> = (\<Sum>i \<leftarrow> [0..<length xs]. \<Sum>j \<leftarrow> [0..<length (xs ! i)]. w (lats ! i))"
    unfolding length_map
  proof (rule arg_cong [where f = sum_list], rule map_cong [OF refl])
    fix i assume "i \<in> set [0..<length xs]"
    then show "(\<Sum>c \<leftarrow> map (map Val) xs ! i. w (lats ! i))
        = (\<Sum>j \<leftarrow> [0..<length (xs ! i)]. w (lats ! i))"
      by (simp add: sum_list_triv comp_def)
  qed
  finally show ?thesis .
qed

lemma present_numerator_Val:
  "(\<Sum>(i, j) \<leftarrow> present (map (map Val) xs). w i * fillna0 (map (map Val) xs ! i ! j))
      = (\<Sum>i \<leftarrow> [0..<length xs]. \<Sum>j \<leftarrow> [0..<length (xs ! i)]. w i * xs ! i ! j)"
  unfolding present_all_Val
proof (rule arg_cong [where f = sum_list], rule map_cong [OF refl])
  fix i assume "i \<in> set [0..<length xs]"
  then have i: "i < length xs" by simp
  have "map (\<lambda>j. w i * fillna0 (map (map Val) xs ! i ! j)) [0..<length (xs ! i)]
      = map (\<lambda>j. w i * xs ! i ! j) [0..<length (xs ! i)]"
    using i by (intro map_cong [OF refl]) simp
  then show "(\<Sum>j \<leftarrow> [0..<length (xs ! i)]. w i * fillna0 (map (map Val) xs ! i ! j))
      = (\<Sum>j \<leftarrow> [0..<length (xs ! i)]. w i * xs ! i ! j)"
    by (simp only:)
qed

text \<open>
  On a grid without missing cells the quotient over the cells that are there is the
  quotient over all cells, as the specification words it.
\<close>

lemma quotients_agree_without_missing_cells:
  assumes "length xs = length lats"
  shows "all_cells_quotient lats (map (map Val) xs)
         = present_cells_quotient lats (map (map Val) xs)"
  unfolding all_cells_quotient_def present_cells_quotient_def Let_def
    all_cells_numerator [OF assms] all_cells_denominator [OF assms]
    present_numerator_Val present_all_Val
  by simp

section \<open>Cloud radiative forcing: clear sky minus all sky\<close>

lemma map_fst_same: "map (\<lambda>(i, i'). xs ! i) (map (\<lambda>i. (i, i)) [0..<length xs]) = xs"
  by (rule nth_equalityI) simp_all

lemma sub3_same_axes:
  assumes "gtime a = gtime b" and "glat a = glat b" and "glon a = glon b"
  shows "sub3 a b =
     Inr \<lparr>gname = (if gname a = gname b then gname a else None),
          gtime = gtime a, glat = glat a, glon = glon a,
          gval = map (\<lambda>t. map (\<lambda>i. map (\<lambda>j. csub (gval a ! t ! i ! j) (gval b ! t ! i ! j))
                     [0..<length (glon a)]) [0..<length (glat a)]) [0..<length (gtime a)]\<rparr>"
proof -
  have "sub3 a b =
     Inr \<lparr>gname = (if gname a = gname b then gname a else None),
          gtime = map (\<lambda>(t, t'). gtime a ! t) (map (\<lambda>i. (i, i)) [0..<length (gtime a)]),
          glat = map (\<lambda>(i, i'). glat a ! i) (map (\<lambda>i. (i, i)) [0..<length (glat a)]),
          glon = map (\<lambda>(j, j'). glon a ! j) (map (\<lambda>i. (i, i)) [0..<length (glon a)]),
          gval = map (\<lambda>(t, t'). map (\<lambda>(i, i'). map (\<lambda>(j, j').
                      csub (gval a ! t ! i ! j) (gval b ! t' ! i' ! j'))
                        (map (\<lambda>i. (i, i)) [0..<length (glon a)]))
                        (map (\<lambda>i. (i, i)) [0..<length (glat a)]))
                        (map (\<lambda>i. (i, i)) [0..<length (gtime a)])\<rparr>"
    unfolding sub3_def assms [symmetric] join_axis_same by (simp only: bind_err_Inr)
  also have "\<dots> =
     Inr \<lparr>gname = (if gname a = gname b then gname a else None),
          gtime = gtime a, glat = glat a, glon = glon a,
          gval = map (\<lambda>t. map (\<lambda>i. map (\<lambda>j. csub (gval a ! t ! i ! j) (gval b ! t ! i ! j))
                     [0..<length (glon a)]) [0..<length (glat a)]) [0..<length (gtime a)]\<rparr>"
    unfolding map_fst_same by (simp add: comp_def)
  finally show ?thesis .
qed

lemma zip_as_map_nth:
  "length xs = length ys \<Longrightarrow> zip xs ys = map (\<lambda>k. (xs ! k, ys ! k)) [0..<length xs]"
  by (rule nth_equalityI) simp_all

lemma selected_steps:
  assumes "length gs = length ts"
  shows "map snd (filter (\<lambda>(t, g). P t) (zip ts gs))
         = map (\<lambda>k. gs ! k) (filter (\<lambda>k. P (ts ! k)) [0..<length ts])"
proof -
  have "zip ts gs = map (\<lambda>k. (ts ! k, gs ! k)) [0..<length ts]"
    using assms by (intro zip_as_map_nth) simp
  then show ?thesis
    by (simp add: filter_map comp_def)
qed

lemma crf_cell:
  assumes c: "ds_vars ds clear = Some vc" and a: "ds_vars ds allsky = Some va"
    and inc: "increasing (ds_time ds)"
    and i: "i < length (ds_lat ds)" and j: "j < length (ds_lon ds)"
  shows "\<exists>F. crf clear allsky ds lo hi = Inr F \<and> flat F = ds_lat ds \<and> flon F = ds_lon ds \<and>
           fval F ! i ! j = period_mean_difference (ds_time ds) lo hi vc va i j"
proof -
  define C where "C = \<lparr>gname = Some clear, gtime = ds_time ds, glat = ds_lat ds,
    glon = ds_lon ds, gval = vc\<rparr>"
  define A where "A = \<lparr>gname = Some allsky, gtime = ds_time ds, glat = ds_lat ds,
    glon = ds_lon ds, gval = va\<rparr>"
  define d where "d = map (\<lambda>t. map (\<lambda>i. map (\<lambda>j. csub (vc ! t ! i ! j) (va ! t ! i ! j))
                     [0..<length (ds_lon ds)]) [0..<length (ds_lat ds)]) [0..<length (ds_time ds)]"
  define D where "D = \<lparr>gname = (if Some clear = Some allsky then Some clear else None),
    gtime = ds_time ds, glat = ds_lat ds, glon = ds_lon ds, gval = d\<rparr>"
  define idx where "idx = filter (\<lambda>k. in_period lo hi (ds_time ds ! k)) [0..<length (ds_time ds)]"
  define G where "G = D\<lparr>gtime := filter (in_period lo hi) (gtime D),
    gval := map snd (filter (\<lambda>(t, g). in_period lo hi t) (zip (gtime D) (gval D)))\<rparr>"
  define F where "F = mean_time G"
  have gC: "getvar ds clear = Inr C" and gA: "getvar ds allsky = Inr A"
    by (simp_all add: getvar_def c a C_def A_def)
  have sub: "sub3 C A = Inr D"
    using sub3_same_axes [of C A] by (simp add: C_def A_def D_def d_def)
  have sel: "sel_time lo hi D = Inr G"
    using inc by (simp add: sel_time_def D_def G_def)
  have res: "crf clear allsky ds lo hi = Inr F"
    by (simp add: crf_def gC gA sub sel F_def)
  have G_axes: "glat G = ds_lat ds" "glon G = ds_lon ds"
    by (simp_all add: G_def D_def)
  have axes: "flat F = ds_lat ds" "flon F = ds_lon ds"
    by (simp_all add: F_def mean_time_def G_axes)
  have lend: "length d = length (ds_time ds)"
    by (simp add: d_def)
  have gsel: "gval G = map (\<lambda>k. d ! k) idx"
    unfolding idx_def using selected_steps [OF lend, of "in_period lo hi"]
    by (simp add: G_def D_def)
  have "fval F ! i ! j = nanmean (map (\<lambda>g. g ! i ! j) (gval G))"
    using i j by (simp add: F_def mean_time_def G_axes)
  also have "gval G = map (\<lambda>k. d ! k) idx"
    by (rule gsel)
  also have "map (\<lambda>g. g ! i ! j) (map (\<lambda>k. d ! k) idx) = map (\<lambda>k. d ! k ! i ! j) idx"
    by simp
  also have "\<dots> = map (\<lambda>k. csub (vc ! k ! i ! j) (va ! k ! i ! j)) idx"
  proof (rule map_cong [OF refl])
    fix k assume "k \<in> set idx"
    then have "k < length (ds_time ds)" by (simp add: idx_def)
    with i j show "d ! k ! i ! j = csub (vc ! k ! i ! j) (va ! k ! i ! j)"
      by (simp add: d_def)
  qed
  finally have "fval F ! i ! j = period_mean_difference (ds_time ds) lo hi vc va i j"
    by (simp add: period_mean_difference_def idx_def)
  with res axes show ?thesis by blast
qed

lemma crf_not_increasing:
  assumes "ds_vars ds clear = Some vc" and "ds_vars ds allsky = Some va"
    and "\<not> increasing (ds_time ds)"
  shows "crf clear allsky ds lo hi = Inl (KeyError ''time'')"
proof -
  define C where "C = \<lparr>gname = Some clear, gtime = ds_time ds, glat = ds_lat ds,
    glon = ds_lon ds, gval = vc\<rparr>"
  define A where "A = \<lparr>gname = Some allsky, gtime = ds_time ds, glat = ds_lat ds,
    glon = ds_lon ds, gval = va\<rparr>"
  have gC: "getvar ds clear = Inr C" and gA: "getvar ds allsky = Inr A"
    by (simp_all add: getvar_def assms C_def A_def)
  from sub3_same_axes [of C A] obtain D where sub: "sub3 C A = Inr D" and t: "gtime D = ds_time ds"
    by (simp add: C_def A_def)
  have "sel_time lo hi D = Inl (KeyError ''time'')"
    using assms(3) by (simp add: sel_time_def t)
  then show ?thesis
    by (simp add: crf_def gC gA sub)
qed

text \<open>
  C3. On a dataset that holds the four variables, for every selected period: when the
  time axis is increasing, at every grid point the longwave forcing is the mean over the
  time steps of the period of \<open>rlutcs - rlut\<close> (clear sky minus all sky), and the shortwave
  forcing is the mean over the same time steps of \<open>rsutcs - rsut\<close>, both on the latitude
  and longitude axes of the dataset; when the time axis is not increasing, the selection
  of the period raises \<^verbatim>\<open>KeyError\<close> and there is no forcing.
\<close>

theorem cloud_radiative_forcing_clear_minus_allsky:
  assumes "ds_vars ds ''rlutcs'' = Some lc" and "ds_vars ds ''rlut'' = Some la"
    and "ds_vars ds ''rsutcs'' = Some sc" and "ds_vars ds ''rsut'' = Some sa"
    and "i < length (ds_lat ds)" and "j < length (ds_lon ds)"
  shows "(increasing (ds_time ds) \<longrightarrow>
           (\<exists>L S. long_crf ds lo hi = Inr L \<and> short_crf ds lo hi = Inr S \<and>
              flat L = ds_lat ds \<and> flon L = ds_lon ds \<and>
              flat S = ds_lat ds \<and> flon S = ds_lon ds \<and>
              fval L ! i ! j = period_mean_difference (ds_time ds) lo hi lc la i j \<and>
              fval S ! i ! j = period_mean_difference (ds_time ds) lo hi sc sa i j)) \<and>
         (\<not> increasing (ds_time ds) \<longrightarrow>
           long_crf ds lo hi = Inl (KeyError ''time'') \<and>
           short_crf ds lo hi = Inl (KeyError ''time''))"
proof (intro conjI impI)
  assume inc: "increasing (ds_time ds)"
  from crf_cell [OF assms(1) assms(2) inc assms(5) assms(6), of lo hi]
  obtain L where L: "long_crf ds lo hi = Inr L" "flat L = ds_lat ds" "flon L = ds_lon ds"
    "fval L ! i ! j = period_mean_difference (ds_time ds) lo hi lc la i j"
    unfolding long_crf_def by blast
  from crf_cell [OF assms(3) assms(4) inc assms(5) assms(6), of lo hi]
  obtain S where S: "short_crf ds lo hi = Inr S" "flat S = ds_lat ds" "flon S = ds_lon ds"
    "fval S ! i ! j = period_mean_difference (ds_time ds) lo hi sc sa i j"
    unfolding short_crf_def by blast
  from L S show "\<exists>L S. long_crf ds lo hi = Inr L \<and> short_crf ds lo hi = Inr S \<and>
              flat L = ds_lat ds \<and> flon L = ds_lon ds \<and>
              flat S = ds_lat ds \<and> flon S = ds_lon ds \<and>
              fval L ! i ! j = period_mean_difference (ds_time ds) lo hi lc la i j \<and>
              fval S ! i ! j = period_mean_difference (ds_time ds) lo hi sc sa i j"
    by blast
next
  assume n: "\<not> increasing (ds_time ds)"
  show "long_crf ds lo hi = Inl (KeyError ''time'')"
    unfolding long_crf_def by (rule crf_not_increasing [OF assms(1) assms(2) n])
  show "short_crf ds lo hi = Inl (KeyError ''time'')"
    unfolding short_crf_def by (rule crf_not_increasing [OF assms(3) assms(4) n])
qed

text \<open>
  The theorem on a one-point grid with four yearly time steps, two of them inside the
  notebook's period 2010-01-01 to 2014-12-31: the forcings are the means of the two
  differences inside the period.
\<close>

theorem cloud_radiative_forcing_clear_minus_allsky_witness:
  "increasing [(2009, 7, 1), (2010, 7, 1), (2012, 7, 1), (2015, 7, 1)] \<and>
   (\<exists>L S.
     long_crf
       \<lparr>ds_time = [(2009, 7, 1), (2010, 7, 1), (2012, 7, 1), (2015, 7, 1)],
        ds_lat = [0], ds_lon = [0],
        ds_vars = [''rlutcs'' \<mapsto> [[[Val 10]], [[Val 20]], [[Val 30]], [[Val 40]]],
                   ''rlut'' \<mapsto> [[[Val 1]], [[Val 2]], [[Val 3]], [[Val 4]]],
                   ''rsutcs'' \<mapsto> [[[Val 5]], [[Val 6]], [[Val 7]], [[Val 8]]],
                   ''rsut'' \<mapsto> [[[Val 9]], [[Val 9]], [[Val 9]], [[Val 9]]]]\<rparr>
       crf_period_lo crf_period_hi = Inr L \<and>
     short_crf
       \<lparr>ds_time = [(2009, 7, 1), (2010, 7, 1), (2012, 7, 1), (2015, 7, 1)],
        ds_lat = [0], ds_lon = [0],
        ds_vars = [''rlutcs'' \<mapsto> [[[Val 10]], [[Val 20]], [[Val 30]], [[Val 40]]],
                   ''rlut'' \<mapsto> [[[Val 1]], [[Val 2]], [[Val 3]], [[Val 4]]],
                   ''rsutcs'' \<mapsto> [[[Val 5]], [[Val 6]], [[Val 7]], [[Val 8]]],
                   ''rsut'' \<mapsto> [[[Val 9]], [[Val 9]], [[Val 9]], [[Val 9]]]]\<rparr>
       crf_period_lo crf_period_hi = Inr S \<and>
     flat L = [0] \<and> flon L = [0] \<and> flat S = [0] \<and> flon S = [0] \<and>
     fval L ! 0 ! 0 = Val (45 / 2) \<and> fval S ! 0 ! 0 = Val (- 5 / 2))"
  using cloud_radiative_forcing_clear_minus_allsky
    [of "\<lparr>ds_time = [(2009, 7, 1), (2010, 7, 1), (2012, 7, 1), (2015, 7, 1)],
        ds_lat = [0], ds_lon = [0],
        ds_vars = [''rlutcs'' \<mapsto> [[[Val 10]], [[Val 20]], [[Val 30]], [[Val 40]]],
                   ''rlut'' \<mapsto> [[[Val 1]], [[Val 2]], [[Val 3]], [[Val 4]]],
                   ''rsutcs'' \<mapsto> [[[Val 5]], [[Val 6]], [[Val 7]], [[Val 8]]],
                   ''rsut'' \<mapsto> [[[Val 9]], [[Val 9]], [[Val 9]], [[Val 9]]]]\<rparr>"
       "[[[Val 10]], [[Val 20]], [[Val 30]], [[Val 40]]]"
       "[[[Val 1]], [[Val 2]], [[Val 3]], [[Val 4]]]"
       "[[[Val 5]], [[Val 6]], [[Val 7]], [[Val 8]]]"
       "[[[Val 9]], [[Val 9]], [[Val 9]], [[Val 9]]]"
       0 0 crf_period_lo crf_period_hi]
  by (simp add: increasing_def period_mean_difference_def in_period_def
      crf_period_lo_def crf_period_hi_def nanmean_def upt_rec)

text \<open>On a time axis stored backwards the same cells raise.\<close>

lemma long_crf_decreasing_time_example:
  "long_crf
     \<lparr>ds_time = [(2012, 7, 1), (2010, 7, 1)], ds_lat = [0], ds_lon = [0],
      ds_vars = [''rlutcs'' \<mapsto> [[[Val 30]], [[Val 20]]], ''rlut'' \<mapsto> [[[Val 3]], [[Val 2]]]]\<rparr>
     crf_period_lo crf_period_hi = Inl (KeyError ''time'')"
  by (simp add: long_crf_def crf_def getvar_def sub3_def join_axis_same sel_time_def
      increasing_def)

section \<open>Arithmetic on common axes\<close>

lemma net_toa_on_dataset:
  assumes "ds_vars ds ''rsdt'' = Some v1" and "ds_vars ds ''rlut'' = Some v2"
    and "ds_vars ds ''rsut'' = Some v3"
  shows "\<exists>N. net_toa ds = Inr N \<and> gtime N = ds_time ds \<and> glat N = ds_lat ds \<and>
           glon N = ds_lon ds"
proof -
  define A where "A = \<lparr>gname = Some ''rsdt'', gtime = ds_time ds, glat = ds_lat ds,
    glon = ds_lon ds, gval = v1\<rparr>"
  define B where "B = \<lparr>gname = Some ''rlut'', gtime = ds_time ds, glat = ds_lat ds,
    glon = ds_lon ds, gval = v2\<rparr>"
  define C where "C = \<lparr>gname = Some ''rsut'', gtime = ds_time ds, glat = ds_lat ds,
    glon = ds_lon ds, gval = v3\<rparr>"
  have g: "getvar ds ''rsdt'' = Inr A" "getvar ds ''rlut'' = Inr B" "getvar ds ''rsut'' = Inr C"
    by (simp_all add: getvar_def assms A_def B_def C_def)
  from sub3_same_axes [of A B] obtain D where D: "sub3 A B = Inr D" "gtime D = ds_time ds"
    "glat D = ds_lat ds" "glon D = ds_lon ds"
    by (simp add: A_def B_def)
  from sub3_same_axes [of D C] D(2-4) obtain N where N: "sub3 D C = Inr N"
    "gtime N = ds_time ds" "glat N = ds_lat ds" "glon N = ds_lon ds"
    by (simp add: C_def)
  have "net_toa ds = Inr N"
    by (simp add: net_toa_def g D(1) N(1))
  with N show ?thesis by blast
qed

lemma period_mean_on_field:
  assumes "increasing (gtime f)"
  shows "\<exists>s. sel_time lo hi f = Inr s \<and> flat (mean_time s) = glat f \<and>
           flon (mean_time s) = glon f \<and> length (fval (mean_time s)) = length (glat f)"
  using assms by (simp add: sel_time_def mean_time_def)

lemma right_ece_on_dataset:
  assumes "ds_vars ds ''rsdt'' = Some v1" and "ds_vars ds ''rlut'' = Some v2"
    and "ds_vars ds ''rsut'' = Some v3" and "increasing (ds_time ds)"
  shows "\<exists>E. right_ece ds = Inr E \<and> flat E = ds_lat ds \<and> flon E = ds_lon ds"
proof -
  from net_toa_on_dataset [OF assms(1-3)] obtain N where N: "net_toa ds = Inr N"
    "gtime N = ds_time ds" "glat N = ds_lat ds" "glon N = ds_lon ds"
    by blast
  from period_mean_on_field [of N bias_period_lo bias_period_hi] assms(4) N(2)
  obtain s where s: "sel_time bias_period_lo bias_period_hi N = Inr s"
    "flat (mean_time s) = glat N" "flon (mean_time s) = glon N"
    by auto
  have "right_ece ds = Inr (mean_time s)"
    by (simp add: right_ece_def N(1) s(1))
  with s N show ?thesis by simp
qed

lemma right_ceres_on_dataset:
  assumes "ds_vars ceres ''toa_net_all_mon'' = Some vc" and "increasing (ds_time ceres)"
  shows "\<exists>C. right_ceres ceres = Inr C \<and> flat C = ds_lat ceres \<and> flon C = ds_lon ceres"
proof -
  define A where "A = \<lparr>gname = Some ''toa_net_all_mon'', gtime = ds_time ceres,
    glat = ds_lat ceres, glon = ds_lon ceres, gval = vc\<rparr>"
  have g: "getvar ceres ''toa_net_all_mon'' = Inr A"
    by (simp add: getvar_def assms A_def)
  from period_mean_on_field [of A bias_period_lo bias_period_hi] assms(2)
  obtain s where s: "sel_time bias_period_lo bias_period_hi A = Inr s"
    "flat (mean_time s) = glat A" "flon (mean_time s) = glon A"
    by (auto simp: A_def)
  have "right_ceres ceres = Inr (mean_time s)"
    by (simp add: right_ceres_def g s(1))
  with s show ?thesis by (simp add: A_def)
qed

lemma sub2_same_axes:
  assumes "flat a = flat b" and "flon a = flon b"
  shows "sub2 a b =
     Inr \<lparr>fname = (if fname a = fname b then fname a else None),
          flat = flat a, flon = flon a,
          fval = map (\<lambda>i. map (\<lambda>j. csub (fval a ! i ! j) (fval b ! i ! j))
                     [0..<length (flon a)]) [0..<length (flat a)]\<rparr>"
proof -
  have "sub2 a b =
     Inr \<lparr>fname = (if fname a = fname b then fname a else None),
          flat = map (\<lambda>(i, i'). flat a ! i) (map (\<lambda>i. (i, i)) [0..<length (flat a)]),
          flon = map (\<lambda>(j, j'). flon a ! j) (map (\<lambda>i. (i, i)) [0..<length (flon a)]),
          fval = map (\<lambda>(i, i'). map (\<lambda>(j, j').
                      csub (fval a ! i ! j) (fval b ! i' ! j'))
                        (map (\<lambda>i. (i, i)) [0..<length (flon a)]))
                        (map (\<lambda>i. (i, i)) [0..<length (flat a)])\<rparr>"
    unfolding sub2_def assms [symmetric] join_axis_same by (simp only: bind_err_Inr)
  also have "\<dots> =
     Inr \<lparr>fname = (if fname a = fname b then fname a else None),
          flat = flat a, flon = flon a,
          fval = map (\<lambda>i. map (\<lambda>j. csub (fval a ! i ! j) (fval b ! i ! j))
                     [0..<length (flon a)]) [0..<length (flat a)]\<rparr>"
    unfolding map_fst_same by (simp add: comp_def)
  finally show ?thesis .
qed

lemma weighted_mean_lonlat_common_latitudes:
  assumes "t < length (gval f)" and "length (gval f ! t) = length (glat f)"
  shows "\<exists>s. weighted_mean_lonlat f (area_weights (glat f)) = Inr s \<and> stime s = gtime f \<and>
           length (sval s) = length (gval f) \<and>
           sval s ! t = present_cells_quotient (glat f) (gval f ! t)"
proof -
  let ?wm = "\<lambda>g. weighted_mean_grid (glat f) g (area_weights (glat f))"
  from sequence_err_all_Inr [of "gval f" ?wm] weighted_mean_grid_own_weights_Inr
  obtain vs where vs: "sequence_err (map ?wm (gval f)) = Inr vs" "length vs = length (gval f)"
    "\<forall>k<length (gval f). ?wm (gval f ! k) = Inr (vs ! k)"
    by blast
  from vs(3) assms(1) have "?wm (gval f ! t) = Inr (vs ! t)" by simp
  with weighted_mean_grid_own_weights [OF assms(2)]
  have "vs ! t = present_cells_quotient (glat f) (gval f ! t)" by simp
  moreover have "weighted_mean_lonlat f (area_weights (glat f)) = Inr \<lparr>stime = gtime f, sval = vs\<rparr>"
    by (simp add: weighted_mean_lonlat_def vs(1))
  ultimately show ?thesis using vs(2) by simp
qed

text \<open>
  C4. The bias and the two weighted means are built from the library's operations alone.
  When the operands have the same axes, every one of them has a value, and it is the
  value one expects. For a model dataset with the three radiation variables and a CERES
  dataset with \<open>toa_net_all_mon\<close>, both on increasing time axes and on the same latitude
  and longitude axes: the two period means exist, the bias exists on the common axes,
  each of its cells is the model cell minus the CERES cell, and its weighted mean with
  the weights of the model's latitudes is the cosine-weighted mean over the cells of the
  bias that are not missing. For an ERA5 dataset on the latitudes of the dataset the
  weights were computed from: at every time step whose grid has one row per latitude the
  weighted spatial mean exists and is the cosine-weighted mean over the cells of that
  time step that are not missing.
\<close>

theorem arithmetic_on_common_axes_is_defined:
  assumes "ds_vars ds ''rsdt'' = Some v1" and "ds_vars ds ''rlut'' = Some v2"
    and "ds_vars ds ''rsut'' = Some v3" and "increasing (ds_time ds)"
    and "ds_vars ceres ''toa_net_all_mon'' = Some vc" and "increasing (ds_time ceres)"
    and "ds_lat ceres = ds_lat ds" and "ds_lon ceres = ds_lon ds"
    and "ds_vars era5 ''tas'' = Some tas" and "ds_lat era5 = ds_lat data"
    and "t < length tas" and "length (tas ! t) = length (ds_lat data)"
  shows "(\<exists>E C B. right_ece ds = Inr E \<and> right_ceres ceres = Inr C \<and>
            bias ds ceres = Inr B \<and> flat B = ds_lat ds \<and> flon B = ds_lon ds \<and>
            fval B = map (\<lambda>i. map (\<lambda>j. csub (fval E ! i ! j) (fval C ! i ! j))
                       [0..<length (ds_lon ds)]) [0..<length (ds_lat ds)] \<and>
            bias_weighted_mean ds ceres = Inr (present_cells_quotient (ds_lat ds) (fval B))) \<and>
         (\<exists>s. era5_spatial_mean data era5 = Inr s \<and> stime s = ds_time era5 \<and>
            length (sval s) = length tas \<and>
            sval s ! t = present_cells_quotient (ds_lat data) (tas ! t))"
proof
  from right_ece_on_dataset [OF assms(1-4)] obtain E where E: "right_ece ds = Inr E"
    "flat E = ds_lat ds" "flon E = ds_lon ds"
    by blast
  from right_ceres_on_dataset [OF assms(5,6)] assms(7,8) obtain C where
    C: "right_ceres ceres = Inr C" "flat C = ds_lat ds" "flon C = ds_lon ds"
    by auto
  define B where "B = \<lparr>fname = (if fname E = fname C then fname E else None),
          flat = flat E, flon = flon E,
          fval = map (\<lambda>i. map (\<lambda>j. csub (fval E ! i ! j) (fval C ! i ! j))
                     [0..<length (flon E)]) [0..<length (flat E)]\<rparr>"
  have sub: "sub2 E C = Inr B"
    unfolding B_def by (rule sub2_same_axes) (simp_all add: E C)
  have b: "bias ds ceres = Inr B"
    by (simp add: bias_def E(1) C(1) sub)
  have axes: "flat B = ds_lat ds" "flon B = ds_lon ds"
    by (simp_all add: B_def E)
  have cells: "fval B = map (\<lambda>i. map (\<lambda>j. csub (fval E ! i ! j) (fval C ! i ! j))
                       [0..<length (ds_lon ds)]) [0..<length (ds_lat ds)]"
    by (simp add: B_def E)
  have "length (fval B) = length (ds_lat ds)"
    by (simp add: cells)
  from weighted_mean_grid_own_weights [OF this]
  have "bias_weighted_mean ds ceres = Inr (present_cells_quotient (ds_lat ds) (fval B))"
    by (simp add: bias_weighted_mean_def b axes)
  with E(1) C(1) b axes cells
  show "\<exists>E C B. right_ece ds = Inr E \<and> right_ceres ceres = Inr C \<and>
            bias ds ceres = Inr B \<and> flat B = ds_lat ds \<and> flon B = ds_lon ds \<and>
            fval B = map (\<lambda>i. map (\<lambda>j. csub (fval E ! i ! j) (fval C ! i ! j))
                       [0..<length (ds_lon ds)]) [0..<length (ds_lat ds)] \<and>
            bias_weighted_mean ds ceres = Inr (present_cells_quotient (ds_lat ds) (fval B))"
    by blast
next
  define T where "T = \<lparr>gname = Some ''tas'', gtime = ds_time era5, glat = ds_lat data,
    glon = ds_lon era5, gval = tas\<rparr>"
  have g: "getvar era5 ''tas'' = Inr T"
    by (simp add: getvar_def assms(9,10) T_def)
  from weighted_mean_lonlat_common_latitudes [of t T] assms(11,12)
  obtain s where "weighted_mean_lonlat T (area_weights (ds_lat data)) = Inr s"
    "stime s = ds_time era5" "length (sval s) = length tas"
    "sval s ! t = present_cells_quotient (ds_lat data) (tas ! t)"
    by (auto simp: T_def)
  then show "\<exists>s. era5_spatial_mean data era5 = Inr s \<and> stime s = ds_time era5 \<and>
            length (sval s) = length tas \<and>
            sval s ! t = present_cells_quotient (ds_lat data) (tas ! t)"
    by (simp add: era5_spatial_mean_def g)
qed

text \<open>
  The theorem on the example datasets: the period means of the model and of CERES are
  (-10, -70) and (-12, -60), the bias is 2 at the equator and -10 at 60 degrees north,
  its cosine-weighted mean is -2, and the ERA5 mean is 290.
\<close>

theorem arithmetic_on_common_axes_is_defined_witness:
  "increasing (ds_time ece_example) \<and> increasing (ds_time ceres_example) \<and>
   ds_lat ceres_example = ds_lat ece_example \<and> ds_lon ceres_example = ds_lon ece_example \<and>
   ds_lat era5_example = ds_lat ece_example \<and>
   right_ece ece_example
     = Inr \<lparr>fname = None, flat = [0, 60], flon = [0], fval = [[Val (- 10)], [Val (- 70)]]\<rparr> \<and>
   right_ceres ceres_example
     = Inr \<lparr>fname = Some ''toa_net_all_mon'', flat = [0, 60], flon = [0],
            fval = [[Val (- 12)], [Val (- 60)]]\<rparr> \<and>
   bias ece_example ceres_example
     = Inr \<lparr>fname = None, flat = [0, 60], flon = [0], fval = [[Val 2], [Val (- 10)]]\<rparr> \<and>
   bias_weighted_mean ece_example ceres_example = Inr (Val (- 2)) \<and>
   era5_spatial_mean ece_example era5_example
     = Inr \<lparr>stime = [(2000, 1, 1)], sval = [Val 290]\<rparr>"
proof -
  have inc: "increasing (ds_time ece_example)" "increasing (ds_time ceres_example)"
    by (simp_all add: increasing_def ece_example_def ceres_example_def)
  have net: "net_toa ece_example
      = Inr \<lparr>gname = None, gtime = [(2005, 7, 1), (2020, 7, 1)], glat = [0, 60], glon = [0],
             gval = [[[Val (- 10)], [Val (- 70)]], [[Val (- 11)], [Val (- 71)]]]\<rparr>"
    by (simp add: net_toa_def getvar_def ece_example_def sub3_def join_axis_same upt_rec)
  have E: "right_ece ece_example
     = Inr \<lparr>fname = None, flat = [0, 60], flon = [0], fval = [[Val (- 10)], [Val (- 70)]]\<rparr>"
    by (simp add: right_ece_def net mean_time_def sel_time_def in_period_def increasing_def
        bias_period_lo_def bias_period_hi_def nanmean_def upt_rec)
  have C: "right_ceres ceres_example
     = Inr \<lparr>fname = Some ''toa_net_all_mon'', flat = [0, 60], flon = [0],
            fval = [[Val (- 12)], [Val (- 60)]]\<rparr>"
    by (simp add: right_ceres_def getvar_def ceres_example_def mean_time_def sel_time_def
        in_period_def bias_period_lo_def bias_period_hi_def nanmean_def increasing_def upt_rec)
  have q1: "present_cells_quotient [0, 60] [[Val 2], [Val (- 10)]] = Val (- 2)"
    by (simp add: present_cells_quotient_def present_def deg2rad_def cos_60)
  have q2: "present_cells_quotient [0, 60] [[Val 300], [Val 270]] = Val 290"
    by (simp add: present_cells_quotient_def present_def deg2rad_def cos_60)
  have vars: "ds_vars ece_example ''rsdt'' = Some [[[Val 340], [Val 200]], [[Val 341], [Val 201]]]"
    "ds_vars ece_example ''rlut'' = Some [[[Val 250], [Val 220]], [[Val 251], [Val 221]]]"
    "ds_vars ece_example ''rsut'' = Some [[[Val 100], [Val 50]], [[Val 101], [Val 51]]]"
    "ds_vars ceres_example ''toa_net_all_mon'' = Some [[[Val (- 12)], [Val (- 60)]]]"
    "ds_vars era5_example ''tas'' = Some [[[Val 300], [Val 270]]]"
    by (simp_all add: ece_example_def ceres_example_def era5_example_def)
  have ax: "ds_lat ceres_example = ds_lat ece_example" "ds_lon ceres_example = ds_lon ece_example"
    "ds_lat era5_example = ds_lat ece_example"
    by (simp_all add: ece_example_def ceres_example_def era5_example_def)
  have axv: "ds_lat ece_example = [0, 60]" "ds_lon ece_example = [0]"
    "ds_time era5_example = [(2000, 1, 1)]"
    by (simp_all add: ece_example_def era5_example_def)
  have "(0::nat) < length [[[Val 300], [Val 270]]]"
    and "length ([[[Val 300], [Val 270]]] ! 0) = length (ds_lat ece_example)"
    by (simp_all add: axv)
  from arithmetic_on_common_axes_is_defined
    [OF vars(1) vars(2) vars(3) inc(1) vars(4) inc(2) ax(1) ax(2) vars(5) ax(3) this]
  obtain E' C' B s where E': "right_ece ece_example = Inr E'"
    and C': "right_ceres ceres_example = Inr C'"
    and B: "bias ece_example ceres_example = Inr B"
    "fval B = map (\<lambda>i. map (\<lambda>j. csub (fval E' ! i ! j) (fval C' ! i ! j))
                       [0..<length (ds_lon ece_example)]) [0..<length (ds_lat ece_example)]"
    "bias_weighted_mean ece_example ceres_example
       = Inr (present_cells_quotient (ds_lat ece_example) (fval B))"
    and s: "era5_spatial_mean ece_example era5_example = Inr s"
    "stime s = ds_time era5_example" "length (sval s) = length [[[Val 300], [Val 270]]]"
    "sval s ! 0 = present_cells_quotient (ds_lat ece_example) ([[[Val 300], [Val 270]]] ! 0)"
    by blast
  from E' E have "fval E' = [[Val (- 10)], [Val (- 70)]]" by auto
  moreover from C' C have "fval C' = [[Val (- 12)], [Val (- 60)]]" by auto
  ultimately have Bc: "fval B = [[Val 2], [Val (- 10)]]"
    using B(2) by (simp add: axv upt_rec)
  have Bv: "bias ece_example ceres_example
     = Inr \<lparr>fname = None, flat = [0, 60], flon = [0], fval = [[Val 2], [Val (- 10)]]\<rparr>"
    by (simp add: bias_def E C sub2_def join_axis_same upt_rec)
  from B(3) Bc q1 have wm: "bias_weighted_mean ece_example ceres_example = Inr (Val (- 2))"
    by (simp add: axv)
  from s(3) obtain v where v: "sval s = [v]"
    by (cases "sval s") auto
  with s(4) q2 have "sval s = [Val 290]" by (simp add: axv)
  with s(2) axv(3) have "s = \<lparr>stime = [(2000, 1, 1)], sval = [Val 290]\<rparr>"
    by (cases s) simp
  with s(1) have era: "era5_spatial_mean ece_example era5_example
     = Inr \<lparr>stime = [(2000, 1, 1)], sval = [Val 290]\<rparr>"
    by simp
  from inc ax E C Bv wm era show ?thesis by simp
qed

text \<open>
  The library's own check is the only one: when the latitude axes differ and one of them
  has a repeated label, the subtraction raises the library's \<^verbatim>\<open>ValueError\<close>; when they
  differ and the labels are unique, the difference lives on the labels the two axes
  share, here none.
\<close>

lemma sub2_repeated_latitude_example:
  "sub2 \<lparr>fname = None, flat = [0, 60], flon = [0], fval = [[Val 2], [Val 3]]\<rparr>
        \<lparr>fname = None, flat = [0, 0], flon = [0], fval = [[Val 1], [Val 1]]\<rparr>
   = Inl ValueError"
  by (simp add: sub2_def join_axis_def)

lemma sub2_disjoint_latitudes_example:
  "sub2 \<lparr>fname = None, flat = [0, 60], flon = [0], fval = [[Val 2], [Val 3]]\<rparr>
        \<lparr>fname = None, flat = [1, 61], flon = [0], fval = [[Val 1], [Val 1]]\<rparr>
   = Inr \<lparr>fname = None, flat = [], flon = [0], fval = []\<rparr>"
  by (simp add: sub2_def join_axis_def List.map_filter_def upt_rec)

section \<open>The download script\<close>

text \<open>
  C5. Whatever the two programs do and whatever arguments the script is given, a run of
  the script is exactly this: it echoes its two lines, runs the download of the one fixed
  archive URL and then the unpacking of the archive, and nothing else; the arguments
  change nothing but the shell's own record of them; the files it leaves are the files
  the unpack program left, working on the files the download program left; and the exit
  status is the one the unpack program returned, never one of the script's making.
\<close>

theorem download_data_sh_runs_download_then_unpack:
  "bash_download_data T args files =
     \<lparr>sh_args = args,
      sh_files = fst (tar_tool T ''xvfz'' ''ussp_data.tar.gz''
        (fst (wget_tool T ''http://wilma.to.isac.cnr.it/diss/paolo/ussp/ussp_data.tar.gz''
           files))),
      sh_echoed = [''Download the USSP data'', ''Unpack the USSP data''],
      sh_status = snd (tar_tool T ''xvfz'' ''ussp_data.tar.gz''
        (fst (wget_tool T ''http://wilma.to.isac.cnr.it/diss/paolo/ussp/ussp_data.tar.gz''
           files))),
      sh_ran = [Wget ''http://wilma.to.isac.cnr.it/diss/paolo/ussp/ussp_data.tar.gz'',
                Tar ''xvfz'' ''ussp_data.tar.gz'']\<rparr>"
  by (simp add: bash_download_data_def download_data_sh_def archive_url_def split: prod.splits)

text \<open>
  The theorem on a run with an argument, in an empty directory, with a network that
  serves the archive: the archive is saved and unpacked, and the status is the unpack
  program's 0.
\<close>

theorem download_data_sh_runs_download_then_unpack_witness:
  "bash_download_data
     (unix_tools [archive_url \<mapsto> TarGz [(''ussp/CERES-2020-2022.nc'', ceres_example)]])
     [''--help''] []
   = \<lparr>sh_args = [''--help''],
      sh_files = [(''ussp_data.tar.gz'', TarGz [(''ussp/CERES-2020-2022.nc'', ceres_example)]),
                  (''ussp/CERES-2020-2022.nc'', NetCDF ceres_example)],
      sh_echoed = [''Download the USSP data'', ''Unpack the USSP data''],
      sh_status = 0,
      sh_ran = [Wget ''http://wilma.to.isac.cnr.it/diss/paolo/ussp/ussp_data.tar.gz'',
                Tar ''xvfz'' ''ussp_data.tar.gz'']\<rparr>"
  using download_data_sh_runs_download_then_unpack
    [of "unix_tools [archive_url \<mapsto> TarGz [(''ussp/CERES-2020-2022.nc'', ceres_example)]]"
        "[''--help'']" "[]"]
  by (simp add: unix_tools_def wget_def tar_def write_file_def basename_def archive_url_def)

text \<open>
  The same run without network: the download fails with status 4 and leaves no file, the
  unpack program runs all the same, finds no archive and returns 2, which is the status
  of the script.
\<close>

lemma download_data_sh_without_network_example:
  "bash_download_data (unix_tools Map.empty) [''--help''] []
   = \<lparr>sh_args = [''--help''], sh_files = [],
      sh_echoed = [''Download the USSP data'', ''Unpack the USSP data''],
      sh_status = 2,
      sh_ran = [Wget ''http://wilma.to.isac.cnr.it/diss/paolo/ussp/ussp_data.tar.gz'',
                Tar ''xvfz'' ''ussp_data.tar.gz'']\<rparr>"
  by (simp add: bash_download_data_def download_data_sh_def unix_tools_def wget_def tar_def
      archive_url_def)

text \<open>
  C10. The unpack step runs on the files the download left, whatever status the download
  returned, and the status of the script is the status of the unpack step alone.
\<close>

theorem download_data_sh_status_is_tar_status:
  "sh_files (bash_download_data T args files)
     = fst (tar_tool T ''xvfz'' ''ussp_data.tar.gz'' (fst (wget_tool T archive_url files))) \<and>
   sh_status (bash_download_data T args files)
     = snd (tar_tool T ''xvfz'' ''ussp_data.tar.gz'' (fst (wget_tool T archive_url files))) \<and>
   last (sh_ran (bash_download_data T args files)) = Tar ''xvfz'' ''ussp_data.tar.gz''"
  by (simp add: bash_download_data_def download_data_sh_def split: prod.splits)

text \<open>
  The theorem on a run without network in a directory that holds the archive: the
  download fails with status 4, the archive is unpacked all the same, and the script ends
  with status 0.
\<close>

theorem download_data_sh_status_is_tar_status_witness:
  "snd (wget Map.empty archive_url
      [(''ussp_data.tar.gz'', TarGz [(''ussp/CERES-2020-2022.nc'', ceres_example)])]) = 4 \<and>
   sh_status (bash_download_data (unix_tools Map.empty) []
      [(''ussp_data.tar.gz'', TarGz [(''ussp/CERES-2020-2022.nc'', ceres_example)])]) = 0 \<and>
   sh_files (bash_download_data (unix_tools Map.empty) []
      [(''ussp_data.tar.gz'', TarGz [(''ussp/CERES-2020-2022.nc'', ceres_example)])])
     = [(''ussp_data.tar.gz'', TarGz [(''ussp/CERES-2020-2022.nc'', ceres_example)]),
        (''ussp/CERES-2020-2022.nc'', NetCDF ceres_example)]"
  using download_data_sh_status_is_tar_status [of "unix_tools Map.empty" "[]"
      "[(''ussp_data.tar.gz'', TarGz [(''ussp/CERES-2020-2022.nc'', ceres_example)])]"]
  by (simp add: unix_tools_def wget_def tar_def write_file_def)

section \<open>The comparison plot\<close>

text \<open>
  \<open>compare_plot\<close> returns exactly when both references are on the heap, the first field
  can be drawn as a map, the subtraction has a value and that value can be drawn as a map;
  in every other case the library's error ends the call.
\<close>

lemma compare_plot_returns_iff:
  "(\<exists>r. compare_plot field1 field2 vmin vmax h = Inr r) \<longleftrightarrow>
     field1 < length h \<and> field2 < length h \<and> check_map (h ! field1) = Inr () \<and>
     (\<exists>d. sub3 (h ! field1) (h ! field2) = Inr d \<and> check_map d = Inr ())"
  by (auto simp: compare_plot_def deref_def plot_on_def set_title_def coastlines_def
      on_panel_def subplots_def empty_panel_def alloc_def numeral_2_eq_2 bind_err_def
      split: sum.splits if_splits)




end
